theory Spec2Isabelle
  imports Main
begin

section \<open>Python string helpers used by githaul.py\<close>

text \<open>
  Strings are ASCII character lists. \<open>py_isspace\<close> is the ASCII part of what
  \<^verbatim>\<open>str.strip()\<close> and \<^verbatim>\<open>str.split()\<close> treat as whitespace: TAB, LF, VT, FF, CR,
  FS, GS, RS, US and the blank.
\<close>

definition py_isspace :: "char \<Rightarrow> bool" where
  "py_isspace c = (c \<in> set [CHR 0x09, CHR 0x0A, CHR 0x0B, CHR 0x0C, CHR 0x0D,
                              CHR 0x1C, CHR 0x1D, CHR 0x1E, CHR 0x1F, CHR 0x20])"

definition py_strip :: "string \<Rightarrow> string" where
  "py_strip s = rev (dropWhile py_isspace (rev (dropWhile py_isspace s)))"

text \<open>\<^verbatim>\<open>s.split()\<close>: the maximal runs of non-whitespace characters, in order.\<close>

fun split_ws :: "string \<Rightarrow> string \<Rightarrow> string list" where
  "split_ws cur [] = (if cur = [] then [] else [cur])"
| "split_ws cur (c # cs) =
     (if py_isspace c then (if cur = [] then split_ws [] cs else cur # split_ws [] cs)
      else split_ws (cur @ [c]) cs)"

definition py_split :: "string \<Rightarrow> string list" where
  "py_split s = split_ws [] s"

text \<open>\<^verbatim>\<open>s.lower()\<close> on ASCII letters.\<close>

definition py_lower_char :: "char \<Rightarrow> char" where
  "py_lower_char c =
     (let n = (of_char c :: nat) in if 65 \<le> n \<and> n \<le> 90 then char_of (n + 32) else c)"

definition py_lower :: "string \<Rightarrow> string" where
  "py_lower s = map py_lower_char s"

text \<open>\<^verbatim>\<open>s.replace('Z', '+00:00')\<close>.\<close>

definition replace_Z :: "string \<Rightarrow> string" where
  "replace_Z s = concat (map (\<lambda>c. if c = CHR ''Z'' then ''+00:00'' else [c]) s)"

text \<open>
  \<^verbatim>\<open>int(tok)\<close> on a token without whitespace: an optional sign, then decimal digits,
  where single underscores may separate digits. \<open>None\<close> is the \<^verbatim>\<open>ValueError\<close>.
\<close>

definition is_digit :: "char \<Rightarrow> bool" where
  "is_digit c = (let n = (of_char c :: nat) in 48 \<le> n \<and> n \<le> 57)"

definition digit_val :: "char \<Rightarrow> int" where
  "digit_val c = int (of_char c) - 48"

fun digits_ok :: "bool \<Rightarrow> string \<Rightarrow> bool" where
  "digits_ok prev_digit [] = prev_digit"
| "digits_ok prev_digit (c # cs) =
     (if is_digit c then digits_ok True cs
      else if c = CHR ''_'' \<and> prev_digit then (cs \<noteq> [] \<and> is_digit (hd cs) \<and> digits_ok False cs)
      else False)"

definition digits_value :: "string \<Rightarrow> int" where
  "digits_value s = foldl (\<lambda>acc c. if is_digit c then 10 * acc + digit_val c else acc) 0 s"

definition py_int :: "string \<Rightarrow> int option" where
  "py_int tok =
     (case tok of
        [] \<Rightarrow> None
      | c # cs \<Rightarrow>
          if c = CHR ''-'' then (if digits_ok False cs then Some (- digits_value cs) else None)
          else if c = CHR ''+'' then (if digits_ok False cs then Some (digits_value cs) else None)
          else if digits_ok False tok then Some (digits_value tok) else None)"

text \<open>
  Lines 179-182 of githaul.py:
  \<^verbatim>\<open>try: behind, ahead = map(int, ahead_behind.strip().split())\<close>
  \<^verbatim>\<open>except Exception: behind = ahead = 0\<close>
  The unpacking succeeds only for exactly two tokens that both parse. The result is
  the pair \<open>(behind, ahead)\<close> in the order the source binds them.
\<close>

definition parse_ahead_behind :: "string \<Rightarrow> int \<times> int" where
  "parse_ahead_behind ab =
     (case map py_int (py_split (py_strip ab)) of
        [Some b, Some a] \<Rightarrow> (b, a)
      | _ \<Rightarrow> (0, 0))"

text \<open>\<^verbatim>\<open>Path.name\<close>: the last component of a path.\<close>

definition path_name :: "string \<Rightarrow> string" where
  "path_name p = rev (takeWhile (\<lambda>c. c \<noteq> CHR ''/'') (rev p))"

text \<open>\<^verbatim>\<open>repo_path / part\<close> for a plain relative component.\<close>

definition path_join :: "string \<Rightarrow> string \<Rightarrow> string" where
  "path_join p part = p @ ''/'' @ part"


section \<open>The process boundary\<close>

text \<open>
  What \<^verbatim>\<open>subprocess.run(cmd, capture_output=True, text=True, cwd=cwd, timeout=timeout)\<close>
  does: it completes with a return code and the two captured streams, or it raises an
  \<^verbatim>\<open>Exception\<close> (the program cannot be started, the timeout elapses, the output
  cannot be decoded), of which the model keeps the text \<^verbatim>\<open>str(e)\<close>.
\<close>

datatype proc_outcome = Completed int string string | Raised string

text \<open>
  A naive or aware \<^verbatim>\<open>datetime\<close>: the wall-clock fields as microseconds on the
  proleptic calendar, and the UTC offset when there is one.
\<close>

record py_datetime =
  wall_us :: int
  tzinfo :: "int option"

text \<open>
  Everything githaul.py reads from outside, over a world of type \<open>'w\<close>: the
  subprocess call (which may change the world), the two filesystem tests, the operator's
  console input (\<open>None\<close> is the \<^verbatim>\<open>EOFError\<close> of \<^verbatim>\<open>input()\<close>), the clock
  \<^verbatim>\<open>datetime.utcnow()\<close> and the library parser \<^verbatim>\<open>datetime.fromisoformat\<close>
  (\<open>None\<close> is its \<^verbatim>\<open>ValueError\<close>).
\<close>

record 'w env =
  subprocess_run :: "'w \<Rightarrow> string list \<Rightarrow> string option \<Rightarrow> nat \<Rightarrow> 'w \<times> proc_outcome"
  is_dir :: "'w \<Rightarrow> string \<Rightarrow> bool"
  is_file :: "'w \<Rightarrow> string \<Rightarrow> bool"
  input_line :: "'w \<Rightarrow> string \<Rightarrow> 'w \<times> string option"
  utcnow :: "'w \<Rightarrow> int"
  fromisoformat :: "string \<Rightarrow> py_datetime option"

text \<open>
  What the run has done so far, in order: subprocess calls (argv, cwd, timeout),
  lines printed on the console, prompts shown to the operator.
\<close>

datatype event = Call "string list" "string option" nat | Print string | Prompt string

record 'w state =
  world :: 'w
  trace :: "event list"

definition console_print :: "'w state \<Rightarrow> string \<Rightarrow> 'w state" where
  "console_print s msg = s\<lparr>trace := trace s @ [Print msg]\<rparr>"

text \<open>\<^verbatim>\<open>run_command\<close>, lines 56-64. The default timeout is 40.\<close>

definition run_command ::
  "'w env \<Rightarrow> 'w state \<Rightarrow> string list \<Rightarrow> string option \<Rightarrow> nat \<Rightarrow> 'w state \<times> (int \<times> string \<times> string)" where
  "run_command env s cmd cwd timeout =
     (case subprocess_run env (world s) cmd cwd timeout of
        (w', Completed returncode out err) \<Rightarrow>
          (\<lparr>world = w', trace = trace s @ [Call cmd cwd timeout]\<rparr>,
           (returncode, py_strip out, py_strip err))
      | (w', Raised e) \<Rightarrow>
          (\<lparr>world = w', trace = trace s @ [Call cmd cwd timeout]\<rparr>, (99, [], e)))"


section \<open>Status classifier\<close>

text \<open>\<^verbatim>\<open>repo_has_submodules\<close>, lines 152-154.\<close>

definition repo_has_submodules :: "'w env \<Rightarrow> 'w state \<Rightarrow> string \<Rightarrow> bool" where
  "repo_has_submodules env s repo_path = is_file env (world s) (path_join repo_path ''.gitmodules'')"

text \<open>\<^verbatim>\<open>timedelta.days\<close> of the difference of two naive datetimes: the floor.\<close>

definition timedelta_days :: "int \<Rightarrow> int \<Rightarrow> int" where
  "timedelta_days now_us then_us = (now_us - then_us) div (86400 * 1000000)"

text \<open>Lines 193-200: the value of \<^verbatim>\<open>days_behind\<close> from the result of the log command.\<close>

definition days_behind_of :: "'w env \<Rightarrow> 'w state \<Rightarrow> int \<Rightarrow> string \<Rightarrow> int" where
  "days_behind_of env s code date_str =
     (if code = 0 \<and> date_str \<noteq> [] then
        (case fromisoformat env (replace_Z date_str) of
           None \<Rightarrow> 0
         | Some commit_date \<Rightarrow>
             timedelta_days (utcnow env (world s)) (wall_us (commit_date\<lparr>tzinfo := None\<rparr>)))
      else 0)"

text \<open>
  The two revision ranges of lines 175 and 192: \<^verbatim>\<open>HEAD...\<close> and \<^verbatim>\<open>HEAD..\<close>, each
  followed by the upstream of the current branch (an at sign and \<^verbatim>\<open>{u}\<close>).
\<close>

definition symmetric_range :: string where
  "symmetric_range = ''HEAD...'' @ [CHR 0x40] @ ''{u}''"

definition upstream_only_range :: string where
  "upstream_only_range = ''HEAD..'' @ [CHR 0x40] @ ''{u}''"

text \<open>\<^verbatim>\<open>local_repo_status\<close>, lines 156-207. The argument \<^verbatim>\<open>remote_url\<close> is unused there.\<close>

definition local_repo_status ::
  "'w env \<Rightarrow> 'w state \<Rightarrow> string \<Rightarrow> string \<Rightarrow> 'w state \<times> (string \<times> string \<times> bool)" where
  "local_repo_status env s repo_path remote_url =
     (let git_dir = path_join repo_path ''.git'' in
      if \<not> is_dir env (world s) git_dir then (s, (''NOT PRESENT'', ''-'', False))
      else
        case run_command env s [''git'', ''status'', ''--porcelain''] (Some repo_path) 40 of
          (s1, (code1, out1, _)) \<Rightarrow>
        if code1 \<noteq> 0 then (s1, (''CONFLICT'', ''-'', repo_has_submodules env s1 repo_path))
        else
        let dirty = (py_strip out1 \<noteq> []) in
        case run_command env s1 [''git'', ''rev-parse'', ''--abbrev-ref'', ''HEAD''] (Some repo_path) 40 of
          (s2, (code2, branch, _)) \<Rightarrow>
        if code2 \<noteq> 0 then (s2, (''CONFLICT'', ''-'', repo_has_submodules env s2 repo_path))
        else
        case run_command env s2 [''git'', ''remote'', ''update''] (Some repo_path) 40 of
          (s3, (code3, _, _)) \<Rightarrow>
        if code3 \<noteq> 0 then (s3, (''CONFLICT'', branch, repo_has_submodules env s3 repo_path))
        else
        case run_command env s3
               [''git'', ''rev-list'', ''--left-right'', ''--count'', symmetric_range]
               (Some repo_path) 40 of
          (s4, (code4, ahead_behind, _)) \<Rightarrow>
        if code4 \<noteq> 0 then
          (s4, (if dirty then ''MODIFIED'' else ''SYNCHRONIZED'', branch,
                repo_has_submodules env s4 repo_path))
        else
        case parse_ahead_behind ahead_behind of (behind, ahead) \<Rightarrow>
        case run_command env s4 [''git'', ''ls-files'', ''--unmerged''] (Some repo_path) 40 of
          (s5, (code5, out5, _)) \<Rightarrow>
        if code5 = 0 \<and> py_strip out5 \<noteq> [] then
          (s5, (''CONFLICT'', branch, repo_has_submodules env s5 repo_path))
        else if dirty \<and> (behind > 0 \<or> ahead > 0) then
          (s5, (''DESYNCHRONIZED'', branch, repo_has_submodules env s5 repo_path))
        else if dirty then
          (s5, (''MODIFIED'', branch, repo_has_submodules env s5 repo_path))
        else if behind > 0 then
          (case run_command env s5
                  [''git'', ''log'', ''--pretty=format:%cI'', upstream_only_range, ''-1'']
                  (Some repo_path) 40 of
             (s6, (code6, date_str, _)) \<Rightarrow>
               let days_behind = days_behind_of env s6 code6 date_str in
               if days_behind \<ge> 30 then
                 (s6, (''OBSOLETE'', branch, repo_has_submodules env s6 repo_path))
               else
                 (s6, (''OUT OF DATE'', branch, repo_has_submodules env s6 repo_path)))
        else if ahead > 0 then
          (s5, (''MODIFIED'', branch, repo_has_submodules env s5 repo_path))
        else
          (s5, (''SYNCHRONIZED'', branch, repo_has_submodules env s5 repo_path)))"


section \<open>Repository records and grouping\<close>

text \<open>The dictionary built for each repository in \<^verbatim>\<open>check_repos\<close>, lines 218-225.\<close>

record repo =
  name :: string
  status :: string
  branch :: string
  path :: string
  remote_url :: string
  has_submodules :: bool

text \<open>
  \<^verbatim>\<open>check_repos\<close>, lines 209-226, over the repository names (\<^verbatim>\<open>repo['name']\<close>):
  \<^verbatim>\<open>owner\<close> is the organisation when there is one, else the user.
\<close>

fun check_repos ::
  "'w env \<Rightarrow> 'w state \<Rightarrow> string \<Rightarrow> string \<Rightarrow> string option \<Rightarrow> string list \<Rightarrow> string
     \<Rightarrow> 'w state \<times> repo list" where
  "check_repos env s user alias org [] root_path = (s, [])"
| "check_repos env s user alias org (repo_name # repos) root_path =
     (let owner = (case org of Some organisation \<Rightarrow> if organisation \<noteq> [] then organisation else user
                   | None \<Rightarrow> user);
          url = ''git@'' @ alias @ '':'' @ owner @ ''/'' @ repo_name @ ''.git'';
          repo_path = path_join root_path repo_name
      in case local_repo_status env s repo_path url of
           (s1, (st, br, subs)) \<Rightarrow>
             (case check_repos env s1 user alias org repos root_path of
                (s2, checked) \<Rightarrow>
                  (s2, \<lparr>name = repo_name, status = st, branch = br, path = repo_path,
                        remote_url = url, has_submodules = subs\<rparr> # checked)))"

text \<open>\<^verbatim>\<open>color_for_status\<close>, lines 228-238.\<close>

definition color_for_status :: "string \<Rightarrow> string" where
  "color_for_status st =
     (case map_of [(''NOT PRESENT'', ''grey50''), (''OUT OF DATE'', ''yellow''),
                   (''OBSOLETE'', ''magenta''), (''SYNCHRONIZED'', ''green''),
                   (''MODIFIED'', ''yellow''), (''CONFLICT'', ''red''),
                   (''DESYNCHRONIZED'', ''red'')] st of
        Some c \<Rightarrow> c
      | None \<Rightarrow> ''white'')"

text \<open>
  \<^verbatim>\<open>get_grouped_repos\<close>, lines 256-261: a dictionary from status to the records with
  that status, in their order; \<open>grouped_get\<close> is \<^verbatim>\<open>grouped.get(status, [])\<close>.
\<close>

definition setdefault_append :: "(string \<rightharpoonup> repo list) \<Rightarrow> repo \<Rightarrow> (string \<rightharpoonup> repo list)" where
  "setdefault_append grouped item =
     grouped(status item \<mapsto> (case grouped (status item) of None \<Rightarrow> [] | Some l \<Rightarrow> l) @ [item])"

definition get_grouped_repos :: "repo list \<Rightarrow> (string \<rightharpoonup> repo list)" where
  "get_grouped_repos checked = foldl setdefault_append Map.empty checked"

definition grouped_get :: "(string \<rightharpoonup> repo list) \<Rightarrow> string \<Rightarrow> repo list" where
  "grouped_get grouped st = (case grouped st of None \<Rightarrow> [] | Some l \<Rightarrow> l)"


section \<open>Operator prompt and submodule updater\<close>

text \<open>
  \<^verbatim>\<open>ask_yes_no\<close>, lines 263-271. The answer \<open>None\<close> is the \<^verbatim>\<open>EOFError\<close> that
  \<^verbatim>\<open>input()\<close> raises on a closed input; nothing in githaul.py below \<^verbatim>\<open>main\<close> catches it.
\<close>

definition ask_yes_no :: "'w env \<Rightarrow> 'w state \<Rightarrow> string \<Rightarrow> bool \<Rightarrow> 'w state \<times> bool option" where
  "ask_yes_no env s prompt default_yes =
     (let prompt_str = prompt @ '' ['' @ (if default_yes then ''Y/n'' else ''y/N'') @ ''] '' in
      case input_line env (world s) prompt_str of
        (w', None) \<Rightarrow> (\<lparr>world = w', trace = trace s @ [Prompt prompt_str]\<rparr>, None)
      | (w', Some line) \<Rightarrow>
          (let ans = py_lower (py_strip line);
               s' = \<lparr>world = w', trace = trace s @ [Prompt prompt_str]\<rparr>
           in if ans = [] \<and> default_yes then (s', Some True)
              else if ans = [] \<and> \<not> default_yes then (s', Some False)
              else (s', Some (ans \<in> set [''y'', ''yes'']))))"

text \<open>\<^verbatim>\<open>ensure_submodules\<close>, lines 273-285.\<close>

definition ensure_submodules :: "'w env \<Rightarrow> 'w state \<Rightarrow> string \<Rightarrow> 'w state" where
  "ensure_submodules env s repo_path =
     (if \<not> repo_has_submodules env s repo_path then s
      else
        case run_command env s [''git'', ''submodule'', ''init''] (Some repo_path) 40 of
          (s1, (code1, _, err1)) \<Rightarrow>
        if code1 \<noteq> 0 then
          console_print s1 (''[yellow]Warning: git submodule init failed in '' @ path_name repo_path
                            @ '': '' @ err1 @ ''[/yellow]'')
        else
        case run_command env s1 [''git'', ''submodule'', ''update'', ''--recursive''] (Some repo_path) 40 of
          (s2, (code2, _, err2)) \<Rightarrow>
        if code2 \<noteq> 0 then
          console_print s2 (''[yellow]Warning: git submodule update failed in '' @ path_name repo_path
                            @ '': '' @ err2 @ ''[/yellow]'')
        else
          console_print s2 (''[green]Submodules updated in '' @ path_name repo_path @ ''[/green]''))"


section \<open>Action orchestrator\<close>

text \<open>The body of the loop of lines 324-347 for one member \<open>r\<close>, when \<^verbatim>\<open>update_all\<close> holds.\<close>

definition update_one :: "'w env \<Rightarrow> 'w state \<Rightarrow> repo \<Rightarrow> 'w state" where
  "update_one env s r =
     (let s0 = console_print s (CHR 0x0A # ''[cyan]Updating repository '' @ name r @ ''...[/cyan]'') in
      case run_command env s0 [''git'', ''fetch''] (Some (path r)) 40 of
        (s1, (code1, _, err1)) \<Rightarrow>
      if code1 \<noteq> 0 then
        console_print s1 (''[red]git fetch failed for '' @ name r @ ''[/red]: '' @ err1)
      else
      case run_command env s1 [''git'', ''status'', ''--porcelain''] (Some (path r)) 40 of
        (s2, (_, out2, _)) \<Rightarrow>
      let dirty = (py_strip out2 \<noteq> []) in
      case run_command env s2 [''git'', ''ls-files'', ''--unmerged''] (Some (path r)) 40 of
        (s3, (_, out3, _)) \<Rightarrow>
      let conflict = (py_strip out3 \<noteq> []) in
      if \<not> dirty \<and> \<not> conflict then
        (case run_command env s3 [''git'', ''pull''] (Some (path r)) 40 of
           (s4, (code4, _, err4)) \<Rightarrow>
             ensure_submodules env
               (if code4 \<noteq> 0 then
                  console_print s4 (''[red]git pull failed for '' @ name r @ ''[/red]: '' @ err4)
                else
                  console_print s4 (''[green]Pulled latest changes for '' @ name r @ ''[/green]''))
               (path r))
      else
        (let s4 = (if dirty then
                     console_print s3 (''[yellow]Skipped pull in '' @ name r
                                       @ '' due to local changes[/yellow]'')
                   else s3);
             s5 = (if conflict then
                     console_print s4 (''[red]Skipped pull in '' @ name r
                                       @ '' due to merge conflicts[/red]'')
                   else s4)
         in ensure_submodules env s5 (path r)))"

text \<open>
  The body of the loop of lines 349-358. \<^verbatim>\<open>dest.parent / dest.name\<close> is \<^verbatim>\<open>dest\<close>
  again for a path below the sync root.
\<close>

definition clone_one :: "'w env \<Rightarrow> 'w state \<Rightarrow> repo \<Rightarrow> 'w state" where
  "clone_one env s r =
     (let dest = path r;
          s0 = console_print s (CHR 0x0A # ''[cyan]Cloning repository '' @ name r @ ''...[/cyan]'') in
      case run_command env s0 [''git'', ''clone'', remote_url r, dest] None 40 of
        (s1, (code1, _, err1)) \<Rightarrow>
      if code1 \<noteq> 0 then
        console_print s1 (''[red]git clone failed for '' @ name r @ ''[/red]: '' @ err1)
      else
        console_print (ensure_submodules env s1 dest) (''[green]Cloned '' @ name r @ ''[/green]''))"

text \<open>The body of the loop of lines 360-368.\<close>

definition fetch_one :: "'w env \<Rightarrow> 'w state \<Rightarrow> repo \<Rightarrow> 'w state" where
  "fetch_one env s r =
     (let s0 = console_print s (CHR 0x0A # ''[yellow]Fetching latest info for '' @ name r
                                @ '' ('' @ status r @ '')...[/yellow]'') in
      case run_command env s0 [''git'', ''fetch''] (Some (path r)) 40 of
        (s1, (code1, _, err1)) \<Rightarrow>
      if code1 \<noteq> 0 then
        console_print s1 (''[red]git fetch failed for '' @ name r @ ''[/red]: '' @ err1)
      else
        console_print (ensure_submodules env s1 (path r)) (''[green]Fetched for '' @ name r @ ''[/green]''))"

text \<open>\<^verbatim>\<open>for r in members: if flag: body\<close>, the shape of the three action loops.\<close>

fun for_each :: "('w state \<Rightarrow> repo \<Rightarrow> 'w state) \<Rightarrow> bool \<Rightarrow> 'w state \<Rightarrow> repo list \<Rightarrow> 'w state" where
  "for_each body flag s [] = s"
| "for_each body flag s (r # rs) = for_each body flag (if flag then body s r else s) rs"

text \<open>The listing loops of lines 297-299, 307-309 and 317-319.\<close>

definition print_member :: "bool \<Rightarrow> 'w state \<Rightarrow> repo \<Rightarrow> 'w state" where
  "print_member with_status s r =
     (let color = color_for_status (status r) in
      console_print s (''  ['' @ color @ '']'' @ name r @ ''[/'' @ color @ '']''
                       @ (if with_status then '' ('' @ status r @ '')'' else [])))"

datatype py_error = EOFError

text \<open>
  \<^verbatim>\<open>do_updates_and_clones\<close>, lines 287-368. The second component is \<open>Some EOFError\<close>
  when a prompt raised; all three prompts come before the first action.
\<close>

definition do_updates_and_clones ::
  "'w env \<Rightarrow> 'w state \<Rightarrow> repo list \<Rightarrow> 'w state \<times> py_error option" where
  "do_updates_and_clones env s checked =
     (let grouped = get_grouped_repos checked;
          need_update = concat (map (grouped_get grouped) [''OUT OF DATE'', ''OBSOLETE'']);
          need_clone = grouped_get grouped ''NOT PRESENT'';
          need_fetch = concat (map (grouped_get grouped) [''MODIFIED'', ''CONFLICT'', ''DESYNCHRONIZED''])
      in
      case (if need_update \<noteq> [] then
              ask_yes_no env
                (foldl (print_member True)
                   (console_print s (CHR 0x0A #
                      ''[bold yellow]The following repositories are out of date or obsolete:[/bold yellow]''))
                   need_update)
                ''Update (fetch & pull) ALL out-of-date repositories?'' True
            else (s, Some False)) of
        (sa, None) \<Rightarrow> (sa, Some EOFError)
      | (sa, Some update_all) \<Rightarrow>
     (case (if need_clone \<noteq> [] then
              ask_yes_no env
                (foldl (print_member False)
                   (console_print sa (CHR 0x0A #
                      ''[bold]The following repositories are not present locally:[/bold]''))
                   need_clone)
                ''Clone ALL missing repositories?'' True
            else (sa, Some False)) of
        (sb, None) \<Rightarrow> (sb, Some EOFError)
      | (sb, Some clone_all) \<Rightarrow>
     (case (if need_fetch \<noteq> [] then
              ask_yes_no env
                (foldl (print_member True)
                   (console_print sb (CHR 0x0A #
                      ''[bold red]The following repositories have local changes/conflicts:[/bold red]''))
                   need_fetch)
                ''Fetch latest info for ALL modified/conflicted repositories? (never pulls, never overwrites)''
                True
            else (sb, Some False)) of
        (sc, None) \<Rightarrow> (sc, Some EOFError)
      | (sc, Some fetch_all) \<Rightarrow>
          (for_each (fetch_one env) fetch_all
             (for_each (clone_one env) clone_all
                (for_each (update_one env) update_all sc need_update)
                need_clone)
             need_fetch,
           None))))"


section \<open>A scripted world for concrete runs\<close>

text \<open>
  A substitute runner in the sense of the design notes: every command is answered from a
  table keyed by its argv (a command without an entry cannot be started), the
  filesystem is two lists of paths, the operator's answers are read off a list, and the
  clock and the timestamp parser count microseconds from the same origin.
\<close>

record fake_world =
  responses :: "(string list \<times> proc_outcome) list"
  dirs :: "string list"
  files :: "string list"
  answers :: "string list"
  clock :: int

definition fake_run :: "fake_world \<Rightarrow> string list \<Rightarrow> string option \<Rightarrow> nat \<Rightarrow> fake_world \<times> proc_outcome" where
  "fake_run w cmd cwd timeout =
     (w, case map_of (responses w) cmd of
           Some outcome \<Rightarrow> outcome
         | None \<Rightarrow> Raised ''[Errno 2] No such file or directory'')"

definition fake_input :: "fake_world \<Rightarrow> string \<Rightarrow> fake_world \<times> string option" where
  "fake_input w prompt =
     (case answers w of [] \<Rightarrow> (w, None) | a # rest \<Rightarrow> (w\<lparr>answers := rest\<rparr>, Some a))"

definition fake_fromisoformat :: "string \<Rightarrow> py_datetime option" where
  "fake_fromisoformat str =
     map_of [(''2024-01-01T00:00:00+00:00'', \<lparr>wall_us = 0, tzinfo = Some 0\<rparr>)] str"

definition fake_env :: "fake_world env" where
  "fake_env =
     \<lparr>subprocess_run = fake_run,
      is_dir = (\<lambda>w p. p \<in> set (dirs w)),
      is_file = (\<lambda>w p. p \<in> set (files w)),
      input_line = fake_input,
      utcnow = clock,
      fromisoformat = fake_fromisoformat\<rparr>"

definition start :: "fake_world \<Rightarrow> fake_world state" where
  "start w = \<lparr>world = w, trace = []\<rparr>"

text \<open>A machine without git: no command can be started.\<close>

definition no_git :: fake_world where
  "no_git = \<lparr>responses = [], dirs = [], files = [], answers = [], clock = 0\<rparr>"


text \<open>The state after the listed commands have been run in the directory \<open>p\<close>.\<close>

definition after_calls :: "fake_world \<Rightarrow> string \<Rightarrow> string list list \<Rightarrow> fake_world state" where
  "after_calls w p cmds = \<lparr>world = w, trace = map (\<lambda>cmd. Call cmd (Some p) 40) cmds\<rparr>"

text \<open>
  One clone at \<^verbatim>\<open>/src/demo\<close> on branch \<^verbatim>\<open>main\<close>, whose remotes can be
  refreshed, fetched and pulled; the answers of the status, count, unmerged and log
  queries and the clock are the parameters. The operator answers \<^verbatim>\<open>y\<close> once.
\<close>

definition demo :: string where
  "demo = ''/src/demo''"

definition repo_world ::
  "proc_outcome \<Rightarrow> proc_outcome \<Rightarrow> proc_outcome \<Rightarrow> proc_outcome \<Rightarrow> int \<Rightarrow> fake_world" where
  "repo_world st counts unmerged logged now =
     \<lparr>responses =
        [([''git'', ''status'', ''--porcelain''], st),
         ([''git'', ''rev-parse'', ''--abbrev-ref'', ''HEAD''], Completed 0 (''main'' @ [CHR 0x0A]) []),
         ([''git'', ''remote'', ''update''], Completed 0 [] []),
         ([''git'', ''rev-list'', ''--left-right'', ''--count'', symmetric_range], counts),
         ([''git'', ''ls-files'', ''--unmerged''], unmerged),
         ([''git'', ''log'', ''--pretty=format:%cI'', upstream_only_range, ''-1''], logged),
         ([''git'', ''fetch''], Completed 0 [] []),
         ([''git'', ''pull''], Completed 0 ''Already up to date.'' [])],
      dirs = [''/src/demo/.git''], files = [], answers = [''y''], clock = now\<rparr>"

definition day_us :: int where
  "day_us = 86400 * 1000000"

definition new_year_commit :: proc_outcome where
  "new_year_commit = Completed 0 ''2024-01-01T00:00:00Z'' []"

definition timed_out :: proc_outcome where
  "timed_out = Raised ''Command timed out after 40 seconds''"

text \<open>Clean, counts \<^verbatim>\<open>0 0\<close>, and the unmerged query times out.\<close>

definition unmerged_query_fails :: fake_world where
  "unmerged_query_fails =
     repo_world (Completed 0 [] []) (Completed 0 (''0'' @ [CHR 0x09] @ ''0'') []) timed_out
       new_year_commit 0"

text \<open>A merge stopped on a conflict, on a branch without a configured upstream.\<close>

definition conflicted_without_upstream :: fake_world where
  "conflicted_without_upstream =
     repo_world (Completed 0 ''UU a.txt'' [])
       (Completed 128 [] ''fatal: no upstream configured for branch main'')
       (Completed 0 (''100644 5d2f8c1 1'' @ [CHR 0x09] @ ''a.txt'') [])
       new_year_commit 0"

text \<open>No clone at \<^verbatim>\<open>/src/demo\<close>, but a \<^verbatim>\<open>.gitmodules\<close> file lies there.\<close>

definition stray_gitmodules :: fake_world where
  "stray_gitmodules =
     \<lparr>responses = [], dirs = [], files = [''/src/demo/.gitmodules''], answers = [], clock = 0\<rparr>"

text \<open>
  Clean; the count query prints \<^verbatim>\<open>3\<close> and \<^verbatim>\<open>0\<close>, which line 180 reads as
  \<^verbatim>\<open>behind = 3\<close> and \<^verbatim>\<open>ahead = 0\<close>; the clock is a parameter.
\<close>

definition behind_clean :: "int \<Rightarrow> fake_world" where
  "behind_clean now =
     repo_world (Completed 0 [] []) (Completed 0 (''3'' @ [CHR 0x09] @ ''0'') [])
       (Completed 0 [] []) new_year_commit now"

text \<open>
  A clean clone that is three commits behind its upstream and none ahead. For the range
  \<^verbatim>\<open>HEAD...\<close>upstream, \<^verbatim>\<open>git rev-list --left-right --count\<close> prints the number of
  commits reachable only from the left side (\<^verbatim>\<open>HEAD\<close>) first and the number reachable
  only from the right side (the upstream) second: here \<^verbatim>\<open>0\<close> and \<^verbatim>\<open>3\<close>. The newest
  upstream-only commit is dated at the origin of the clock, which is a parameter.
\<close>

definition really_behind :: "int \<Rightarrow> fake_world" where
  "really_behind now =
     repo_world (Completed 0 [] []) (Completed 0 (''0'' @ [CHR 0x09] @ ''3'') [])
       (Completed 0 [] []) new_year_commit now"

text \<open>Uncommitted changes, one commit on each side, no unmerged path.\<close>

definition dirty_diverged :: fake_world where
  "dirty_diverged =
     repo_world (Completed 0 '' M a.txt'' []) (Completed 0 (''1'' @ [CHR 0x09] @ ''1'') [])
       (Completed 0 [] []) new_year_commit 0"

text \<open>A merge stopped on a conflict, one commit on each side.\<close>

definition conflicted_diverged :: fake_world where
  "conflicted_diverged =
     repo_world (Completed 0 ''UU a.txt'' []) (Completed 0 (''1'' @ [CHR 0x09] @ ''1'') [])
       (Completed 0 (''100644 5d2f8c1 1'' @ [CHR 0x09] @ ''a.txt'') [])
       new_year_commit 0"


text \<open>The record of the clone at \<^verbatim>\<open>/src/demo\<close>, with a given status.\<close>

definition demo_repo :: "string \<Rightarrow> repo" where
  "demo_repo st =
     \<lparr>name = ''demo'', status = st, branch = ''main'', path = demo,
      remote_url = ''git@gh:acme/demo.git'', has_submodules = False\<rparr>"

text \<open>
  A clean tree whose branch and upstream have diverged: the count query prints
  \<^verbatim>\<open>3\<close> and \<^verbatim>\<open>2\<close>, and the newest upstream commit is five days old.
\<close>

definition diverged_clean :: fake_world where
  "diverged_clean =
     repo_world (Completed 0 [] []) (Completed 0 (''3'' @ [CHR 0x09] @ ''2'') [])
       (Completed 0 [] []) new_year_commit (5 * day_us)"


section \<open>Traces\<close>

text \<open>The events that a step from \<open>s\<close> to \<open>s'\<close> added to the trace.\<close>

definition new_events :: "'w state \<Rightarrow> 'w state \<Rightarrow> event list" where
  "new_events s s' = drop (length (trace s)) (trace s')"

text \<open>\<open>s'\<close> continues the trace of \<open>s\<close> with events that all satisfy \<open>P\<close>.\<close>

definition extends_with :: "(event \<Rightarrow> bool) \<Rightarrow> 'w state \<Rightarrow> 'w state \<Rightarrow> bool" where
  "extends_with P s s' \<longleftrightarrow> (\<exists>es. trace s' = trace s @ es \<and> list_all P es)"

text \<open>The commands of the read-only refresh, and of the whole orchestrator.\<close>

definition refresh_commands :: "string list list" where
  "refresh_commands =
     [[''git'', ''fetch''], [''git'', ''submodule'', ''init''],
      [''git'', ''submodule'', ''update'', ''--recursive'']]"

definition only_refreshes_in :: "string \<Rightarrow> event \<Rightarrow> bool" where
  "only_refreshes_in p e =
     (case e of Call argv cwd t \<Rightarrow> cwd = Some p \<longrightarrow> argv \<in> set refresh_commands | _ \<Rightarrow> True)"

definition orchestrator_commands :: "string list list" where
  "orchestrator_commands =
     [[''git'', ''fetch''], [''git'', ''status'', ''--porcelain''], [''git'', ''ls-files'', ''--unmerged''],
      [''git'', ''pull''], [''git'', ''submodule'', ''init''],
      [''git'', ''submodule'', ''update'', ''--recursive'']]"

definition orchestrator_event :: "event \<Rightarrow> bool" where
  "orchestrator_event e =
     (case e of
        Call argv cwd t \<Rightarrow>
          argv \<in> set orchestrator_commands \<or> (length argv = 4 \<and> take 2 argv = [''git'', ''clone''])
      | _ \<Rightarrow> True)"

text \<open>
  What a re-check reads as clean: the command could not be run, or it completed, with
  whatever exit code, and printed nothing but whitespace.
\<close>

definition reads_empty :: "proc_outcome \<Rightarrow> bool" where
  "reads_empty outcome =
     (case outcome of Raised e \<Rightarrow> True | Completed returncode out err \<Rightarrow> py_strip out = [])"


section \<open>Command runner\<close>

text \<open>
  C9. \<^verbatim>\<open>run_command\<close> returns a triple for every invocation, and when
  \<^verbatim>\<open>subprocess.run\<close> raises (the process cannot start, the timeout elapses) the triple
  is exit code 99, which is not zero, an empty stdout, and the text of the exception as
  stderr.
\<close>

theorem run_command_always_returns:
  "(\<exists>s' code out err. run_command env s cmd cwd timeout = (s', (code, out, err))) \<and>
   (\<forall>w' e. subprocess_run env (world s) cmd cwd timeout = (w', Raised e) \<longrightarrow>
      snd (run_command env s cmd cwd timeout) = (99, [], e) \<and>
      fst (snd (run_command env s cmd cwd timeout)) \<noteq> 0)"
proof (intro conjI allI impI)
  show "\<exists>s' code out err. run_command env s cmd cwd timeout = (s', (code, out, err))"
    by (metis prod.exhaust)
next
  fix w' e
  assume raised: "subprocess_run env (world s) cmd cwd timeout = (w', Raised e)"
  then show "snd (run_command env s cmd cwd timeout) = (99, [], e)"
    by (simp add: run_command_def)
  from raised show "fst (snd (run_command env s cmd cwd timeout)) \<noteq> 0"
    by (simp add: run_command_def)
qed

theorem run_command_always_returns_witness:
  "subprocess_run fake_env (world (start no_git)) [''git'', ''fetch''] None 40
     = (no_git, Raised ''[Errno 2] No such file or directory'') \<and>
   snd (run_command fake_env (start no_git) [''git'', ''fetch''] None 40)
     = (99, [], ''[Errno 2] No such file or directory'')"
proof -
  have raised: "subprocess_run fake_env (world (start no_git)) [''git'', ''fetch''] None 40
     = (no_git, Raised ''[Errno 2] No such file or directory'')"
    by (simp add: fake_env_def fake_run_def start_def no_git_def)
  from run_command_always_returns [of fake_env "start no_git" "[''git'', ''fetch'']" None 40] raised
  have "snd (run_command fake_env (start no_git) [''git'', ''fetch''] None 40)
     = (99, [], ''[Errno 2] No such file or directory'')"
    by blast
  with raised show ?thesis by blast
qed


section \<open>Status classifier: the decision tree\<close>

text \<open>
  The classification as a function of the results of the queries, each read in the state
  its predecessor left: the reading of \<^verbatim>\<open>local_repo_status\<close> that the claims below
  share.
\<close>

lemma local_repo_status_cases:
  assumes "is_dir env (world s) (path_join p ''.git'')"
    and "run_command env s [''git'', ''status'', ''--porcelain''] (Some p) 40 = (s1, (c1, out1, e1))"
    and "run_command env s1 [''git'', ''rev-parse'', ''--abbrev-ref'', ''HEAD''] (Some p) 40
           = (s2, (c2, br, e2))"
    and "run_command env s2 [''git'', ''remote'', ''update''] (Some p) 40 = (s3, (c3, o3, e3))"
    and "run_command env s3 [''git'', ''rev-list'', ''--left-right'', ''--count'', symmetric_range]
           (Some p) 40 = (s4, (c4, ab, e4))"
    and "parse_ahead_behind ab = (behind, ahead)"
    and "run_command env s4 [''git'', ''ls-files'', ''--unmerged''] (Some p) 40 = (s5, (c5, o5, e5))"
    and "run_command env s5 [''git'', ''log'', ''--pretty=format:%cI'', upstream_only_range, ''-1'']
           (Some p) 40 = (s6, (c6, date_str, e6))"
  shows "fst (snd (local_repo_status env s p url)) =
     (if c1 \<noteq> 0 then ''CONFLICT''
      else if c2 \<noteq> 0 then ''CONFLICT''
      else if c3 \<noteq> 0 then ''CONFLICT''
      else if c4 \<noteq> 0 then (if py_strip out1 \<noteq> [] then ''MODIFIED'' else ''SYNCHRONIZED'')
      else if c5 = 0 \<and> py_strip o5 \<noteq> [] then ''CONFLICT''
      else if py_strip out1 \<noteq> [] \<and> (behind > 0 \<or> ahead > 0) then ''DESYNCHRONIZED''
      else if py_strip out1 \<noteq> [] then ''MODIFIED''
      else if behind > 0 then
        (if days_behind_of env s6 c6 date_str \<ge> 30 then ''OBSOLETE'' else ''OUT OF DATE'')
      else if ahead > 0 then ''MODIFIED''
      else ''SYNCHRONIZED'')"
  using assms by (simp add: local_repo_status_def Let_def)


section \<open>Status classifier: the claims\<close>

text \<open>
  C5 (as the code has it). Without a metadata directory at the local path the
  classification is \<^verbatim>\<open>NOT PRESENT\<close> with branch \<^verbatim>\<open>-\<close>, whatever the remote and the
  rest of the world are; no command is run, and the submodule flag is the constant
  \<^verbatim>\<open>False\<close>: the presence check of \<^verbatim>\<open>repo_has_submodules\<close> is not made on this path.
\<close>

theorem not_present_without_metadata:
  assumes "\<not> is_dir env (world s) (path_join p ''.git'')"
  shows "local_repo_status env s p url = (s, (''NOT PRESENT'', ''-'', False))"
  using assms by (simp add: local_repo_status_def)

theorem not_present_without_metadata_witness:
  "\<not> is_dir fake_env (world (start stray_gitmodules)) (path_join demo ''.git'') \<and>
   local_repo_status fake_env (start stray_gitmodules) demo ''git@gh:acme/demo.git''
     = (start stray_gitmodules, (''NOT PRESENT'', ''-'', False))"
proof -
  have absent: "\<not> is_dir fake_env (world (start stray_gitmodules)) (path_join demo ''.git'')"
    by code_simp
  from not_present_without_metadata [OF absent] absent show ?thesis
    by blast
qed

text \<open>
  C5 as stated fails: with a \<^verbatim>\<open>.gitmodules\<close> file at a path that holds no clone, the
  presence check answers true and the classification reports no submodules.
\<close>

theorem submodule_check_skipped_counterexample:
  "\<not> is_dir fake_env (world (start stray_gitmodules)) (path_join demo ''.git'') \<and>
   repo_has_submodules fake_env (start stray_gitmodules) demo \<and>
   snd (snd (snd (local_repo_status fake_env (start stray_gitmodules) demo ''git@gh:acme/demo.git'')))
     = False"
  by code_simp

text \<open>
  C7 (as the code has it). When the first four queries succeed, the working tree is dirty,
  one of the two counts is positive and the unmerged query reports nothing (it fails, or
  its listing is empty), the classification is \<^verbatim>\<open>DESYNCHRONIZED\<close>; and with a dirty tree
  and a positive count it is \<^verbatim>\<open>DESYNCHRONIZED\<close> or \<^verbatim>\<open>CONFLICT\<close>, never \<^verbatim>\<open>MODIFIED\<close> or
  \<^verbatim>\<open>OUT OF DATE\<close>.
\<close>

theorem dirty_divergence_desynchronized:
  assumes "is_dir env (world s) (path_join p ''.git'')"
    and "run_command env s [''git'', ''status'', ''--porcelain''] (Some p) 40 = (s1, (0, out1, e1))"
    and "py_strip out1 \<noteq> []"
    and "run_command env s1 [''git'', ''rev-parse'', ''--abbrev-ref'', ''HEAD''] (Some p) 40
           = (s2, (0, br, e2))"
    and "run_command env s2 [''git'', ''remote'', ''update''] (Some p) 40 = (s3, (0, o3, e3))"
    and "run_command env s3 [''git'', ''rev-list'', ''--left-right'', ''--count'', symmetric_range]
           (Some p) 40 = (s4, (0, ab, e4))"
    and "parse_ahead_behind ab = (behind, ahead)"
    and "behind > 0 \<or> ahead > 0"
    and "run_command env s4 [''git'', ''ls-files'', ''--unmerged''] (Some p) 40 = (s5, (c5, o5, e5))"
  shows "(\<not> (c5 = 0 \<and> py_strip o5 \<noteq> []) \<longrightarrow>
            fst (snd (local_repo_status env s p url)) = ''DESYNCHRONIZED'') \<and>
         fst (snd (local_repo_status env s p url)) \<in> {''DESYNCHRONIZED'', ''CONFLICT''} \<and>
         fst (snd (local_repo_status env s p url)) \<noteq> ''MODIFIED'' \<and>
         fst (snd (local_repo_status env s p url)) \<noteq> ''OUT OF DATE''"
proof -
  obtain s6 c6 date_str e6 where
    "run_command env s5 [''git'', ''log'', ''--pretty=format:%cI'', upstream_only_range, ''-1'']
       (Some p) 40 = (s6, (c6, date_str, e6))"
    by (metis prod.exhaust)
  from local_repo_status_cases [OF assms(1,2,4,5,6,7,9) this, of url] assms(3,8)
  show ?thesis by auto
qed

theorem dirty_divergence_desynchronized_witness:
  "fst (snd (local_repo_status fake_env (after_calls dirty_diverged demo []) demo ''git@gh:acme/demo.git''))
     = ''DESYNCHRONIZED''"
proof -
  let ?w = dirty_diverged
  let ?c1 = "[''git'', ''status'', ''--porcelain'']"
  let ?c2 = "[''git'', ''rev-parse'', ''--abbrev-ref'', ''HEAD'']"
  let ?c3 = "[''git'', ''remote'', ''update'']"
  let ?c4 = "[''git'', ''rev-list'', ''--left-right'', ''--count'', symmetric_range]"
  let ?c5 = "[''git'', ''ls-files'', ''--unmerged'']"
  have h0: "is_dir fake_env (world (after_calls ?w demo [])) (path_join demo ''.git'')"
    by code_simp
  have h1: "run_command fake_env (after_calls ?w demo []) ?c1 (Some demo) 40
      = (after_calls ?w demo [?c1], (0, ''M a.txt'', []))"
    by code_simp
  have dirty: "py_strip ''M a.txt'' \<noteq> []"
    by code_simp
  have h2: "run_command fake_env (after_calls ?w demo [?c1]) ?c2 (Some demo) 40
      = (after_calls ?w demo [?c1, ?c2], (0, ''main'', []))"
    by code_simp
  have h3: "run_command fake_env (after_calls ?w demo [?c1, ?c2]) ?c3 (Some demo) 40
      = (after_calls ?w demo [?c1, ?c2, ?c3], (0, [], []))"
    by code_simp
  have h4: "run_command fake_env (after_calls ?w demo [?c1, ?c2, ?c3]) ?c4 (Some demo) 40
      = (after_calls ?w demo [?c1, ?c2, ?c3, ?c4], (0, [CHR ''1'', CHR 0x09, CHR ''1''], []))"
    by code_simp
  have counts: "parse_ahead_behind [CHR ''1'', CHR 0x09, CHR ''1''] = (1, 1)"
    by code_simp
  have positive: "(1::int) > 0 \<or> (1::int) > 0"
    by simp
  have h5: "run_command fake_env (after_calls ?w demo [?c1, ?c2, ?c3, ?c4]) ?c5 (Some demo) 40
      = (after_calls ?w demo [?c1, ?c2, ?c3, ?c4, ?c5], (0, [], []))"
    by code_simp
  have quiet: "\<not> ((0::int) = 0 \<and> py_strip [] \<noteq> [])"
    by code_simp
  from dirty_divergence_desynchronized [OF h0 h1 dirty h2 h3 h4 counts positive h5] quiet
  show ?thesis by blast
qed

text \<open>
  C7 as stated fails: a dirty tree with one commit on each side and an unmerged path is
  classified \<^verbatim>\<open>CONFLICT\<close>, not \<^verbatim>\<open>DESYNCHRONIZED\<close>.
\<close>

theorem dirty_divergence_conflict_counterexample:
  "py_strip (fst (snd (snd (run_command fake_env (start conflicted_diverged)
       [''git'', ''status'', ''--porcelain''] (Some demo) 40)))) \<noteq> [] \<and>
   parse_ahead_behind (fst (snd (snd (run_command fake_env (start conflicted_diverged)
       [''git'', ''rev-list'', ''--left-right'', ''--count'', symmetric_range] (Some demo) 40)))) = (1, 1) \<and>
   fst (snd (local_repo_status fake_env (start conflicted_diverged) demo ''git@gh:acme/demo.git''))
     = ''CONFLICT'' \<and>
   fst (snd (local_repo_status fake_env (start conflicted_diverged) demo ''git@gh:acme/demo.git''))
     \<noteq> ''DESYNCHRONIZED''"
  by code_simp


text \<open>
  C3 (as the code has it). With the metadata directory present the classifier always
  returns. A failed status query or a failed branch query gives \<^verbatim>\<open>CONFLICT\<close>. A failed
  unmerged query (after four successful queries) is ignored: the result is what the dirty
  flag and the two counts give without any unmerged path, and it is not \<^verbatim>\<open>CONFLICT\<close>.
\<close>

theorem unmerged_query_failure_ignored:
  assumes "is_dir env (world s) (path_join p ''.git'')"
    and "run_command env s [''git'', ''status'', ''--porcelain''] (Some p) 40 = (s1, (c1, out1, e1))"
    and "run_command env s1 [''git'', ''rev-parse'', ''--abbrev-ref'', ''HEAD''] (Some p) 40
           = (s2, (c2, br, e2))"
    and "run_command env s2 [''git'', ''remote'', ''update''] (Some p) 40 = (s3, (c3, o3, e3))"
    and "run_command env s3 [''git'', ''rev-list'', ''--left-right'', ''--count'', symmetric_range]
           (Some p) 40 = (s4, (c4, ab, e4))"
    and "parse_ahead_behind ab = (behind, ahead)"
    and "run_command env s4 [''git'', ''ls-files'', ''--unmerged''] (Some p) 40 = (s5, (c5, o5, e5))"
  shows "(\<exists>s' st b sub. local_repo_status env s p url = (s', (st, b, sub))) \<and>
         (c1 \<noteq> 0 \<longrightarrow> fst (snd (local_repo_status env s p url)) = ''CONFLICT'') \<and>
         (c1 = 0 \<and> c2 \<noteq> 0 \<longrightarrow> fst (snd (local_repo_status env s p url)) = ''CONFLICT'') \<and>
         (c1 = 0 \<and> c2 = 0 \<and> c3 = 0 \<and> c4 = 0 \<and> c5 \<noteq> 0 \<longrightarrow>
            fst (snd (local_repo_status env s p url)) \<noteq> ''CONFLICT'' \<and>
            (py_strip out1 \<noteq> [] \<and> (behind > 0 \<or> ahead > 0) \<longrightarrow>
               fst (snd (local_repo_status env s p url)) = ''DESYNCHRONIZED'') \<and>
            (py_strip out1 \<noteq> [] \<and> \<not> (behind > 0 \<or> ahead > 0) \<longrightarrow>
               fst (snd (local_repo_status env s p url)) = ''MODIFIED'') \<and>
            (py_strip out1 = [] \<and> behind > 0 \<longrightarrow>
               fst (snd (local_repo_status env s p url)) \<in> {''OUT OF DATE'', ''OBSOLETE''}) \<and>
            (py_strip out1 = [] \<and> \<not> behind > 0 \<and> ahead > 0 \<longrightarrow>
               fst (snd (local_repo_status env s p url)) = ''MODIFIED'') \<and>
            (py_strip out1 = [] \<and> \<not> behind > 0 \<and> \<not> ahead > 0 \<longrightarrow>
               fst (snd (local_repo_status env s p url)) = ''SYNCHRONIZED''))"
proof -
  obtain s6 c6 date_str e6 where
    "run_command env s5 [''git'', ''log'', ''--pretty=format:%cI'', upstream_only_range, ''-1'']
       (Some p) 40 = (s6, (c6, date_str, e6))"
    by (metis prod.exhaust)
  note tree = local_repo_status_cases [OF assms this, of url]
  have returns: "\<exists>s' st b sub. local_repo_status env s p url = (s', (st, b, sub))"
    by (metis prod.exhaust)
  from tree have early: "c1 \<noteq> 0 \<or> (c1 = 0 \<and> c2 \<noteq> 0)
      \<Longrightarrow> fst (snd (local_repo_status env s p url)) = ''CONFLICT''"
    by auto
  from tree have late: "c1 = 0 \<and> c2 = 0 \<and> c3 = 0 \<and> c4 = 0 \<and> c5 \<noteq> 0 \<Longrightarrow>
      fst (snd (local_repo_status env s p url)) =
        (if py_strip out1 \<noteq> [] \<and> (behind > 0 \<or> ahead > 0) then ''DESYNCHRONIZED''
         else if py_strip out1 \<noteq> [] then ''MODIFIED''
         else if behind > 0 then
           (if days_behind_of env s6 c6 date_str \<ge> 30 then ''OBSOLETE'' else ''OUT OF DATE'')
         else if ahead > 0 then ''MODIFIED''
         else ''SYNCHRONIZED'')"
    by simp
  from returns early late show ?thesis
    by (auto split: if_splits)
qed

theorem unmerged_query_failure_ignored_witness:
  "fst (snd (run_command fake_env
       (after_calls unmerged_query_fails demo
          [[''git'', ''status'', ''--porcelain''], [''git'', ''rev-parse'', ''--abbrev-ref'', ''HEAD''],
           [''git'', ''remote'', ''update''],
           [''git'', ''rev-list'', ''--left-right'', ''--count'', symmetric_range]])
       [''git'', ''ls-files'', ''--unmerged''] (Some demo) 40)) = 99 \<and>
   fst (snd (local_repo_status fake_env (after_calls unmerged_query_fails demo []) demo
       ''git@gh:acme/demo.git'')) = ''SYNCHRONIZED''"
proof -
  let ?w = unmerged_query_fails
  let ?c1 = "[''git'', ''status'', ''--porcelain'']"
  let ?c2 = "[''git'', ''rev-parse'', ''--abbrev-ref'', ''HEAD'']"
  let ?c3 = "[''git'', ''remote'', ''update'']"
  let ?c4 = "[''git'', ''rev-list'', ''--left-right'', ''--count'', symmetric_range]"
  let ?c5 = "[''git'', ''ls-files'', ''--unmerged'']"
  have h0: "is_dir fake_env (world (after_calls ?w demo [])) (path_join demo ''.git'')"
    by code_simp
  have h1: "run_command fake_env (after_calls ?w demo []) ?c1 (Some demo) 40
      = (after_calls ?w demo [?c1], (0, [], []))"
    by code_simp
  have h2: "run_command fake_env (after_calls ?w demo [?c1]) ?c2 (Some demo) 40
      = (after_calls ?w demo [?c1, ?c2], (0, ''main'', []))"
    by code_simp
  have h3: "run_command fake_env (after_calls ?w demo [?c1, ?c2]) ?c3 (Some demo) 40
      = (after_calls ?w demo [?c1, ?c2, ?c3], (0, [], []))"
    by code_simp
  have h4: "run_command fake_env (after_calls ?w demo [?c1, ?c2, ?c3]) ?c4 (Some demo) 40
      = (after_calls ?w demo [?c1, ?c2, ?c3, ?c4], (0, [CHR ''0'', CHR 0x09, CHR ''0''], []))"
    by code_simp
  have counts: "parse_ahead_behind [CHR ''0'', CHR 0x09, CHR ''0''] = (0, 0)"
    by code_simp
  have h5: "run_command fake_env (after_calls ?w demo [?c1, ?c2, ?c3, ?c4]) ?c5 (Some demo) 40
      = (after_calls ?w demo [?c1, ?c2, ?c3, ?c4, ?c5], (99, [], ''Command timed out after 40 seconds''))"
    by code_simp
  have clean: "py_strip [] = []"
    by code_simp
  from unmerged_query_failure_ignored [OF h0 h1 h2 h3 h4 counts h5, of "''git@gh:acme/demo.git''"] clean
  have "fst (snd (local_repo_status fake_env (after_calls ?w demo []) demo ''git@gh:acme/demo.git''))
      = ''SYNCHRONIZED''"
    by simp
  with h5 show ?thesis by simp
qed

text \<open>
  C3 as stated fails: the metadata directory is there, the unmerged query times out
  (exit code 99), and the classification is \<^verbatim>\<open>SYNCHRONIZED\<close>.
\<close>

theorem unmerged_query_failure_counterexample:
  "is_dir fake_env (world (start unmerged_query_fails)) (path_join demo ''.git'') \<and>
   fst (snd (run_command fake_env (start unmerged_query_fails)
       [''git'', ''ls-files'', ''--unmerged''] (Some demo) 40)) = 99 \<and>
   fst (snd (local_repo_status fake_env (start unmerged_query_fails) demo ''git@gh:acme/demo.git''))
     = ''SYNCHRONIZED'' \<and>
   fst (snd (local_repo_status fake_env (start unmerged_query_fails) demo ''git@gh:acme/demo.git''))
     \<noteq> ''CONFLICT''"
  by code_simp

text \<open>
  C4 (as the code has it). When the status, branch, remote-refresh and count queries
  succeed and the unmerged query succeeds with a non-empty listing, the classification is
  \<^verbatim>\<open>CONFLICT\<close>, whatever the dirty flag and the two counts are.
\<close>

theorem unmerged_listing_conflict:
  assumes "is_dir env (world s) (path_join p ''.git'')"
    and "run_command env s [''git'', ''status'', ''--porcelain''] (Some p) 40 = (s1, (0, out1, e1))"
    and "run_command env s1 [''git'', ''rev-parse'', ''--abbrev-ref'', ''HEAD''] (Some p) 40
           = (s2, (0, br, e2))"
    and "run_command env s2 [''git'', ''remote'', ''update''] (Some p) 40 = (s3, (0, o3, e3))"
    and "run_command env s3 [''git'', ''rev-list'', ''--left-right'', ''--count'', symmetric_range]
           (Some p) 40 = (s4, (0, ab, e4))"
    and "run_command env s4 [''git'', ''ls-files'', ''--unmerged''] (Some p) 40 = (s5, (0, o5, e5))"
    and "py_strip o5 \<noteq> []"
  shows "fst (snd (local_repo_status env s p url)) = ''CONFLICT''"
  using assms by (simp add: local_repo_status_def split: prod.splits)

theorem unmerged_listing_conflict_witness:
  "fst (snd (local_repo_status fake_env (after_calls conflicted_diverged demo []) demo
       ''git@gh:acme/demo.git'')) = ''CONFLICT''"
proof -
  let ?w = conflicted_diverged
  let ?c1 = "[''git'', ''status'', ''--porcelain'']"
  let ?c2 = "[''git'', ''rev-parse'', ''--abbrev-ref'', ''HEAD'']"
  let ?c3 = "[''git'', ''remote'', ''update'']"
  let ?c4 = "[''git'', ''rev-list'', ''--left-right'', ''--count'', symmetric_range]"
  let ?c5 = "[''git'', ''ls-files'', ''--unmerged'']"
  let ?listing = "''100644 5d2f8c1 1'' @ [CHR 0x09] @ ''a.txt''"
  have h0: "is_dir fake_env (world (after_calls ?w demo [])) (path_join demo ''.git'')"
    by code_simp
  have h1: "run_command fake_env (after_calls ?w demo []) ?c1 (Some demo) 40
      = (after_calls ?w demo [?c1], (0, ''UU a.txt'', []))"
    by code_simp
  have h2: "run_command fake_env (after_calls ?w demo [?c1]) ?c2 (Some demo) 40
      = (after_calls ?w demo [?c1, ?c2], (0, ''main'', []))"
    by code_simp
  have h3: "run_command fake_env (after_calls ?w demo [?c1, ?c2]) ?c3 (Some demo) 40
      = (after_calls ?w demo [?c1, ?c2, ?c3], (0, [], []))"
    by code_simp
  have h4: "run_command fake_env (after_calls ?w demo [?c1, ?c2, ?c3]) ?c4 (Some demo) 40
      = (after_calls ?w demo [?c1, ?c2, ?c3, ?c4], (0, [CHR ''1'', CHR 0x09, CHR ''1''], []))"
    by code_simp
  have h5: "run_command fake_env (after_calls ?w demo [?c1, ?c2, ?c3, ?c4]) ?c5 (Some demo) 40
      = (after_calls ?w demo [?c1, ?c2, ?c3, ?c4, ?c5], (0, ?listing, []))"
    by code_simp
  have listed: "py_strip ?listing \<noteq> []"
    by code_simp
  show ?thesis
    by (rule unmerged_listing_conflict [OF h0 h1 h2 h3 h4 h5 listed])
qed

text \<open>
  C4 as stated fails: none of the four excepted cases applies (the metadata directory is
  there; the status, branch and remote-refresh queries succeed), the unmerged listing is
  not empty, and yet the classification is \<^verbatim>\<open>MODIFIED\<close>, because the count query failed
  first.
\<close>

theorem unmerged_listing_counterexample:
  "is_dir fake_env (world (start conflicted_without_upstream)) (path_join demo ''.git'') \<and>
   fst (snd (run_command fake_env (start conflicted_without_upstream)
       [''git'', ''status'', ''--porcelain''] (Some demo) 40)) = 0 \<and>
   fst (snd (run_command fake_env (start conflicted_without_upstream)
       [''git'', ''rev-parse'', ''--abbrev-ref'', ''HEAD''] (Some demo) 40)) = 0 \<and>
   fst (snd (run_command fake_env (start conflicted_without_upstream)
       [''git'', ''remote'', ''update''] (Some demo) 40)) = 0 \<and>
   fst (snd (run_command fake_env (start conflicted_without_upstream)
       [''git'', ''ls-files'', ''--unmerged''] (Some demo) 40)) = 0 \<and>
   py_strip (fst (snd (snd (run_command fake_env (start conflicted_without_upstream)
       [''git'', ''ls-files'', ''--unmerged''] (Some demo) 40)))) \<noteq> [] \<and>
   fst (snd (local_repo_status fake_env (start conflicted_without_upstream) demo
       ''git@gh:acme/demo.git'')) = ''MODIFIED''"
  by code_simp


text \<open>
  The recency split as the code makes it, on the first number of the count query (the one
  line 180 binds to \<^verbatim>\<open>behind\<close>). For a clean tree with that number positive and no
  unmerged path reported, the days are the clock minus the wall-clock fields of the
  timestamp the log command printed, floored to days: fewer than 30 give
  \<^verbatim>\<open>OUT OF DATE\<close>, 30 or more give \<^verbatim>\<open>OBSOLETE\<close>; when the log command fails, prints
  nothing, or prints what cannot be parsed, the result is \<^verbatim>\<open>OUT OF DATE\<close>.
\<close>

lemma recency_threshold_on_first_count:
  assumes "is_dir env (world s) (path_join p ''.git'')"
    and "run_command env s [''git'', ''status'', ''--porcelain''] (Some p) 40 = (s1, (0, out1, e1))"
    and "py_strip out1 = []"
    and "run_command env s1 [''git'', ''rev-parse'', ''--abbrev-ref'', ''HEAD''] (Some p) 40
           = (s2, (0, br, e2))"
    and "run_command env s2 [''git'', ''remote'', ''update''] (Some p) 40 = (s3, (0, o3, e3))"
    and "run_command env s3 [''git'', ''rev-list'', ''--left-right'', ''--count'', symmetric_range]
           (Some p) 40 = (s4, (0, ab, e4))"
    and "parse_ahead_behind ab = (first_count, second_count)"
    and "first_count > 0"
    and "run_command env s4 [''git'', ''ls-files'', ''--unmerged''] (Some p) 40 = (s5, (c5, o5, e5))"
    and "\<not> (c5 = 0 \<and> py_strip o5 \<noteq> [])"
    and "run_command env s5 [''git'', ''log'', ''--pretty=format:%cI'', upstream_only_range, ''-1'']
           (Some p) 40 = (s6, (c6, date_str, e6))"
  shows "(c6 = 0 \<and> date_str \<noteq> [] \<and> fromisoformat env (replace_Z date_str) = Some d \<longrightarrow>
            ((utcnow env (world s6) - wall_us d) div 86400000000 < 30 \<longrightarrow>
               fst (snd (local_repo_status env s p url)) = ''OUT OF DATE'') \<and>
            ((utcnow env (world s6) - wall_us d) div 86400000000 \<ge> 30 \<longrightarrow>
               fst (snd (local_repo_status env s p url)) = ''OBSOLETE'')) \<and>
         (c6 \<noteq> 0 \<or> date_str = [] \<or> fromisoformat env (replace_Z date_str) = None \<longrightarrow>
            fst (snd (local_repo_status env s p url)) = ''OUT OF DATE'')"
proof -
  from local_repo_status_cases [OF assms(1,2,4,5,6,7,9,11), of url] assms(3,8,10)
  have tree: "fst (snd (local_repo_status env s p url)) =
      (if days_behind_of env s6 c6 date_str \<ge> 30 then ''OBSOLETE'' else ''OUT OF DATE'')"
    by simp
  have parsed: "days_behind_of env s6 c6 date_str = (utcnow env (world s6) - wall_us d) div 86400000000"
    if "c6 = 0" "date_str \<noteq> []" "fromisoformat env (replace_Z date_str) = Some d"
    using that by (simp add: days_behind_of_def timedelta_days_def)
  have fallback: "days_behind_of env s6 c6 date_str = 0"
    if "c6 \<noteq> 0 \<or> date_str = [] \<or> fromisoformat env (replace_Z date_str) = None"
    using that by (auto simp: days_behind_of_def)
  from tree parsed fallback show ?thesis
    by auto
qed

text \<open>
  C6, at a clone the code mishandles. The clone is clean, three commits behind its
  upstream and none ahead, without unmerged paths, so the count query prints \<^verbatim>\<open>0\<close> and
  \<^verbatim>\<open>3\<close>. Line 180 binds the first number to \<^verbatim>\<open>behind\<close> and the second to
  \<^verbatim>\<open>ahead\<close>: the code holds \<^verbatim>\<open>behind = 0\<close> and \<^verbatim>\<open>ahead = 3\<close>, the test of line
  190 fails, the log command is never run, and line 205 answers \<^verbatim>\<open>MODIFIED\<close>, whether
  the newest upstream-only commit is 5, 30 or 45 days old: never \<^verbatim>\<open>OUT OF DATE\<close> and
  never \<^verbatim>\<open>OBSOLETE\<close>.
\<close>

theorem really_behind_clone_is_modified:
  "parse_ahead_behind (''0'' @ [CHR 0x09] @ ''3'') = (0, 3) \<and>
   (5 * day_us - 0) div 86400000000 = 5 \<and>
   fst (snd (local_repo_status fake_env (start (really_behind (5 * day_us))) demo
       ''git@gh:acme/demo.git'')) = ''MODIFIED'' \<and>
   (30 * day_us - 0) div 86400000000 = 30 \<and>
   fst (snd (local_repo_status fake_env (start (really_behind (30 * day_us))) demo
       ''git@gh:acme/demo.git'')) = ''MODIFIED'' \<and>
   (45 * day_us - 0) div 86400000000 = 45 \<and>
   fst (snd (local_repo_status fake_env (start (really_behind (45 * day_us))) demo
       ''git@gh:acme/demo.git'')) = ''MODIFIED'' \<and>
   Call [''git'', ''log'', ''--pretty=format:%cI'', upstream_only_range, ''-1''] (Some demo) 40
     \<notin> set (trace (fst (local_repo_status fake_env (start (really_behind (45 * day_us))) demo
         ''git@gh:acme/demo.git'')))"
  by code_simp


section \<open>Action orchestrator: traces\<close>

lemma fake_run_command:
  "run_command fake_env s cmd cwd n =
     (s\<lparr>trace := trace s @ [Call cmd cwd n]\<rparr>,
      case map_of (responses (world s)) cmd of
        Some (Completed rc out err) \<Rightarrow> (rc, py_strip out, py_strip err)
      | Some (Raised e) \<Rightarrow> (99, [], e)
      | None \<Rightarrow> (99, [], ''[Errno 2] No such file or directory''))"
  by (cases s) (simp add: run_command_def fake_env_def fake_run_def split: option.splits proc_outcome.splits)

lemma fake_env_sel:
  "is_dir fake_env w p = (p \<in> set (dirs w))"
  "is_file fake_env w p = (p \<in> set (files w))"
  "input_line fake_env = fake_input"
  "utcnow fake_env = clock"
  "fromisoformat fake_env = fake_fromisoformat"
  by (simp_all add: fake_env_def)

lemmas orchestrator_eval = do_updates_and_clones_def get_grouped_repos_def setdefault_append_def
  grouped_get_def demo_repo_def ask_yes_no_def fake_run_command fetch_one_def update_one_def clone_one_def
  ensure_submodules_def repo_has_submodules_def new_events_def start_def repo_world_def
  console_print_def print_member_def color_for_status_def fake_env_sel fake_input_def py_lower_def
  py_strip_def py_isspace_def py_lower_char_def demo_def path_join_def Let_def

lemma extends_refl: "extends_with P s s"
  by (simp add: extends_with_def)

lemma extends_trans:
  "extends_with P s s1 \<Longrightarrow> extends_with P s1 s2 \<Longrightarrow> extends_with P s s2"
  by (auto simp: extends_with_def)

lemma extends_print: "P (Print m) \<Longrightarrow> extends_with P s (console_print s m)"
  by (simp add: extends_with_def console_print_def)

lemma extends_run:
  "P (Call cmd cwd t) \<Longrightarrow> run_command env s cmd cwd t = (s', r) \<Longrightarrow> extends_with P s s'"
  by (auto simp: run_command_def extends_with_def split: prod.splits proc_outcome.splits)

lemma extends_new_events:
  assumes "extends_with P s s'"
  shows "trace s' = trace s @ new_events s s'" and "list_all P (new_events s s')"
  using assms by (auto simp: extends_with_def new_events_def)

lemma extends_ensure_submodules:
  assumes prints: "\<And>m. P (Print m)"
    and init: "P (Call [''git'', ''submodule'', ''init''] (Some p) 40)"
    and update: "P (Call [''git'', ''submodule'', ''update'', ''--recursive''] (Some p) 40)"
  shows "extends_with P s (ensure_submodules env s p)"
proof (cases "repo_has_submodules env s p")
  case False
  then show ?thesis by (simp add: ensure_submodules_def extends_refl)
next
  case True
  obtain s1 c1 o1 e1 where r1:
    "run_command env s [''git'', ''submodule'', ''init''] (Some p) 40 = (s1, (c1, o1, e1))"
    by (metis prod.exhaust)
  obtain s2 c2 o2 e2 where r2:
    "run_command env s1 [''git'', ''submodule'', ''update'', ''--recursive''] (Some p) 40 = (s2, (c2, o2, e2))"
    by (metis prod.exhaust)
  have a: "extends_with P s s1" by (rule extends_run [where P = P, OF init r1])
  have b: "extends_with P s1 s2" by (rule extends_run [where P = P, OF update r2])
  show ?thesis
    using True r1 r2 a b prints
    by (auto simp: ensure_submodules_def intro: extends_trans extends_print)
qed


lemma extends_update_one:
  assumes prints: "\<And>m. P (Print m)"
    and "P (Call [''git'', ''fetch''] (Some (path r)) 40)"
    and "P (Call [''git'', ''status'', ''--porcelain''] (Some (path r)) 40)"
    and "P (Call [''git'', ''ls-files'', ''--unmerged''] (Some (path r)) 40)"
    and "P (Call [''git'', ''pull''] (Some (path r)) 40)"
    and init: "P (Call [''git'', ''submodule'', ''init''] (Some (path r)) 40)"
    and update: "P (Call [''git'', ''submodule'', ''update'', ''--recursive''] (Some (path r)) 40)"
  shows "extends_with P s (update_one env s r)"
proof -
  let ?s0 = "console_print s (CHR 0x0A # ''[cyan]Updating repository '' @ name r @ ''...[/cyan]'')"
  obtain s1 c1 o1 e1 where r1:
    "run_command env ?s0 [''git'', ''fetch''] (Some (path r)) 40 = (s1, (c1, o1, e1))"
    by (metis prod.exhaust)
  obtain s2 c2 o2 e2 where r2:
    "run_command env s1 [''git'', ''status'', ''--porcelain''] (Some (path r)) 40 = (s2, (c2, o2, e2))"
    by (metis prod.exhaust)
  obtain s3 c3 o3 e3 where r3:
    "run_command env s2 [''git'', ''ls-files'', ''--unmerged''] (Some (path r)) 40 = (s3, (c3, o3, e3))"
    by (metis prod.exhaust)
  obtain s4 c4 o4 e4 where r4:
    "run_command env s3 [''git'', ''pull''] (Some (path r)) 40 = (s4, (c4, o4, e4))"
    by (metis prod.exhaust)
  have e0: "extends_with P s ?s0" by (rule extends_print) (rule prints)
  have e1: "extends_with P s s1" using extends_run [where P = P, OF assms(2) r1] e0 by (blast intro: extends_trans)
  have e2: "extends_with P s s2" using extends_run [where P = P, OF assms(3) r2] e1 by (blast intro: extends_trans)
  have e3: "extends_with P s s3" using extends_run [where P = P, OF assms(4) r3] e2 by (blast intro: extends_trans)
  have e4: "extends_with P s s4" using extends_run [where P = P, OF assms(5) r4] e3 by (blast intro: extends_trans)
  have sub: "\<And>t. extends_with P t (ensure_submodules env t (path r))"
    by (rule extends_ensure_submodules [where P = P, OF prints init update])
  have pr: "\<And>t m. extends_with P s t \<Longrightarrow> extends_with P s (console_print t m)"
    using extends_trans extends_print prints by blast
  have fin: "\<And>t. extends_with P s t \<Longrightarrow> extends_with P s (ensure_submodules env t (path r))"
    by (blast intro: extends_trans sub)
  show ?thesis
    using r1 r2 r3 r4 e1 e3 e4
    by (simp add: update_one_def Let_def pr fin)
qed

lemma extends_clone_one:
  assumes prints: "\<And>m. P (Print m)"
    and "P (Call [''git'', ''clone'', remote_url r, path r] None 40)"
    and init: "P (Call [''git'', ''submodule'', ''init''] (Some (path r)) 40)"
    and update: "P (Call [''git'', ''submodule'', ''update'', ''--recursive''] (Some (path r)) 40)"
  shows "extends_with P s (clone_one env s r)"
proof -
  let ?s0 = "console_print s (CHR 0x0A # ''[cyan]Cloning repository '' @ name r @ ''...[/cyan]'')"
  obtain s1 c1 o1 e1 where r1:
    "run_command env ?s0 [''git'', ''clone'', remote_url r, path r] None 40 = (s1, (c1, o1, e1))"
    by (metis prod.exhaust)
  have e0: "extends_with P s ?s0" by (rule extends_print) (rule prints)
  have e1: "extends_with P s s1" using extends_run [where P = P, OF assms(2) r1] e0 by (blast intro: extends_trans)
  have sub: "\<And>t. extends_with P t (ensure_submodules env t (path r))"
    by (rule extends_ensure_submodules [where P = P, OF prints init update])
  have pr: "\<And>t m. extends_with P s t \<Longrightarrow> extends_with P s (console_print t m)"
    using extends_trans extends_print prints by blast
  have fin: "\<And>t. extends_with P s t \<Longrightarrow> extends_with P s (ensure_submodules env t (path r))"
    by (blast intro: extends_trans sub)
  show ?thesis
    using r1 e1 by (simp add: clone_one_def Let_def pr fin)
qed

lemma extends_fetch_one:
  assumes prints: "\<And>m. P (Print m)"
    and "P (Call [''git'', ''fetch''] (Some (path r)) 40)"
    and init: "P (Call [''git'', ''submodule'', ''init''] (Some (path r)) 40)"
    and update: "P (Call [''git'', ''submodule'', ''update'', ''--recursive''] (Some (path r)) 40)"
  shows "extends_with P s (fetch_one env s r)"
proof -
  let ?s0 = "console_print s (CHR 0x0A # ''[yellow]Fetching latest info for '' @ name r
                                @ '' ('' @ status r @ '')...[/yellow]'')"
  obtain s1 c1 o1 e1 where r1:
    "run_command env ?s0 [''git'', ''fetch''] (Some (path r)) 40 = (s1, (c1, o1, e1))"
    by (metis prod.exhaust)
  have e0: "extends_with P s ?s0" by (rule extends_print) (rule prints)
  have e1: "extends_with P s s1" using extends_run [where P = P, OF assms(2) r1] e0 by (blast intro: extends_trans)
  have sub: "\<And>t. extends_with P t (ensure_submodules env t (path r))"
    by (rule extends_ensure_submodules [where P = P, OF prints init update])
  have pr: "\<And>t m. extends_with P s t \<Longrightarrow> extends_with P s (console_print t m)"
    using extends_trans extends_print prints by blast
  have fin: "\<And>t. extends_with P s t \<Longrightarrow> extends_with P s (ensure_submodules env t (path r))"
    by (blast intro: extends_trans sub)
  show ?thesis
    using r1 e1 by (simp add: fetch_one_def Let_def pr fin)
qed

lemma extends_for_each:
  assumes "\<And>t r. r \<in> set rs \<Longrightarrow> extends_with P t (body t r)"
  shows "extends_with P s (for_each body flag s rs)"
  using assms
proof (induction rs arbitrary: s)
  case Nil
  then show ?case by (simp add: extends_refl)
next
  case (Cons r rs)
  have step: "extends_with P s (if flag then body s r else s)"
    using Cons.prems by (simp add: extends_refl)
  have rest: "extends_with P (if flag then body s r else s)
      (for_each body flag (if flag then body s r else s) rs)"
    by (rule Cons.IH) (simp add: Cons.prems)
  from step rest have "extends_with P s (for_each body flag (if flag then body s r else s) rs)"
    by (rule extends_trans)
  then show ?case by simp
qed

lemma extends_print_members:
  assumes prints: "\<And>m. P (Print m)"
  shows "extends_with P s (foldl (print_member b) s rs)"
proof (induction rs arbitrary: s)
  case Nil
  then show ?case by (simp add: extends_refl)
next
  case (Cons r rs)
  have "extends_with P s (print_member b s r)"
    by (simp add: print_member_def Let_def extends_print prints)
  moreover have "extends_with P (print_member b s r) (foldl (print_member b) (print_member b s r) rs)"
    by (rule Cons.IH)
  ultimately have "extends_with P s (foldl (print_member b) (print_member b s r) rs)"
    by (rule extends_trans)
  then show ?case by simp
qed

lemma extends_ask_yes_no:
  assumes "\<And>m. P (Prompt m)"
  shows "extends_with P s (fst (ask_yes_no env s q d))"
  using assms
  by (auto simp: ask_yes_no_def Let_def extends_with_def split: prod.splits option.splits)

lemma grouped_get_foldl:
  "grouped_get (foldl setdefault_append g rs) st
     = grouped_get g st @ filter (\<lambda>r. status r = st) rs"
  by (induction rs arbitrary: g) (auto simp: grouped_get_def setdefault_append_def split: option.splits)

lemma grouped_get_status:
  "grouped_get (get_grouped_repos checked) st = filter (\<lambda>r. status r = st) checked"
  by (simp add: get_grouped_repos_def grouped_get_foldl) (simp add: grouped_get_def)


lemma extends_prompt_block:
  assumes prints: "\<And>m. P (Print m)" and prompts: "\<And>m. P (Prompt m)"
    and block: "(if xs \<noteq> [] then ask_yes_no env (foldl (print_member b) (console_print s h) xs) q d
                 else (s, Some False)) = (s', answer)"
  shows "extends_with P s s'"
proof (cases "xs = []")
  case True
  with block show ?thesis by (simp add: extends_refl)
next
  case False
  let ?s1 = "console_print s h"
  let ?s2 = "foldl (print_member b) ?s1 xs"
  have "extends_with P s ?s1"
    by (rule extends_print) (rule prints)
  moreover have "extends_with P ?s1 ?s2"
    by (rule extends_print_members) (rule prints)
  moreover have "extends_with P ?s2 (fst (ask_yes_no env ?s2 q d))"
    by (rule extends_ask_yes_no) (rule prompts)
  moreover from False block have "fst (ask_yes_no env ?s2 q d) = s'"
    by simp
  ultimately show ?thesis
    using extends_trans by metis
qed

lemma extends_do_updates_and_clones:
  assumes prints: "\<And>m. P (Print m)" and prompts: "\<And>m. P (Prompt m)"
    and upd: "\<And>r. r \<in> set checked \<Longrightarrow> status r = ''OUT OF DATE'' \<or> status r = ''OBSOLETE'' \<Longrightarrow>
        P (Call [''git'', ''fetch''] (Some (path r)) 40) \<and>
        P (Call [''git'', ''status'', ''--porcelain''] (Some (path r)) 40) \<and>
        P (Call [''git'', ''ls-files'', ''--unmerged''] (Some (path r)) 40) \<and>
        P (Call [''git'', ''pull''] (Some (path r)) 40) \<and>
        P (Call [''git'', ''submodule'', ''init''] (Some (path r)) 40) \<and>
        P (Call [''git'', ''submodule'', ''update'', ''--recursive''] (Some (path r)) 40)"
    and cln: "\<And>r. r \<in> set checked \<Longrightarrow> status r = ''NOT PRESENT'' \<Longrightarrow>
        P (Call [''git'', ''clone'', remote_url r, path r] None 40) \<and>
        P (Call [''git'', ''submodule'', ''init''] (Some (path r)) 40) \<and>
        P (Call [''git'', ''submodule'', ''update'', ''--recursive''] (Some (path r)) 40)"
    and fch: "\<And>r. r \<in> set checked \<Longrightarrow>
        status r = ''MODIFIED'' \<or> status r = ''CONFLICT'' \<or> status r = ''DESYNCHRONIZED'' \<Longrightarrow>
        P (Call [''git'', ''fetch''] (Some (path r)) 40) \<and>
        P (Call [''git'', ''submodule'', ''init''] (Some (path r)) 40) \<and>
        P (Call [''git'', ''submodule'', ''update'', ''--recursive''] (Some (path r)) 40)"
  shows "extends_with P s (fst (do_updates_and_clones env s checked))"
proof -
  define need_update where "need_update =
    concat (map (grouped_get (get_grouped_repos checked)) [''OUT OF DATE'', ''OBSOLETE''])"
  define need_clone where "need_clone = grouped_get (get_grouped_repos checked) ''NOT PRESENT''"
  define need_fetch where "need_fetch =
    concat (map (grouped_get (get_grouped_repos checked)) [''MODIFIED'', ''CONFLICT'', ''DESYNCHRONIZED''])"
  have mem_update: "r \<in> set checked \<and> (status r = ''OUT OF DATE'' \<or> status r = ''OBSOLETE'')"
    if "r \<in> set need_update" for r
    using that by (auto simp: need_update_def grouped_get_status)
  have mem_clone: "r \<in> set checked \<and> status r = ''NOT PRESENT''"
    if "r \<in> set need_clone" for r
    using that by (auto simp: need_clone_def grouped_get_status)
  have mem_fetch: "r \<in> set checked \<and>
      (status r = ''MODIFIED'' \<or> status r = ''CONFLICT'' \<or> status r = ''DESYNCHRONIZED'')"
    if "r \<in> set need_fetch" for r
    using that by (auto simp: need_fetch_def grouped_get_status)
  have phase_a: "extends_with P t (for_each (update_one env) flag t need_update)" for t flag
  proof (rule extends_for_each)
    fix t' r assume "r \<in> set need_update"
    from upd [OF mem_update [OF this, THEN conjunct1] mem_update [OF this, THEN conjunct2]]
    show "extends_with P t' (update_one env t' r)"
      using prints by (intro extends_update_one) auto
  qed
  have phase_b: "extends_with P t (for_each (clone_one env) flag t need_clone)" for t flag
  proof (rule extends_for_each)
    fix t' r assume "r \<in> set need_clone"
    from cln [OF mem_clone [OF this, THEN conjunct1] mem_clone [OF this, THEN conjunct2]]
    show "extends_with P t' (clone_one env t' r)"
      using prints by (intro extends_clone_one) auto
  qed
  have phase_c: "extends_with P t (for_each (fetch_one env) flag t need_fetch)" for t flag
  proof (rule extends_for_each)
    fix t' r assume "r \<in> set need_fetch"
    from fch [OF mem_fetch [OF this, THEN conjunct1] mem_fetch [OF this, THEN conjunct2]]
    show "extends_with P t' (fetch_one env t' r)"
      using prints by (intro extends_fetch_one) auto
  qed
  have actions: "extends_with P t
      (for_each (fetch_one env) fa (for_each (clone_one env) ca
         (for_each (update_one env) ua t need_update) need_clone) need_fetch)" for t ua ca fa
    using phase_a phase_b phase_c extends_trans by metis
  define A where "A = (if need_update \<noteq> [] then
              ask_yes_no env
                (foldl (print_member True)
                   (console_print s (CHR 0x0A #
                      ''[bold yellow]The following repositories are out of date or obsolete:[/bold yellow]''))
                   need_update)
                ''Update (fetch & pull) ALL out-of-date repositories?'' True
            else (s, Some False))"
  define B where "B = (\<lambda>sa. if need_clone \<noteq> [] then
              ask_yes_no env
                (foldl (print_member False)
                   (console_print sa (CHR 0x0A #
                      ''[bold]The following repositories are not present locally:[/bold]''))
                   need_clone)
                ''Clone ALL missing repositories?'' True
            else (sa, Some False))"
  define C where "C = (\<lambda>sb. if need_fetch \<noteq> [] then
              ask_yes_no env
                (foldl (print_member True)
                   (console_print sb (CHR 0x0A #
                      ''[bold red]The following repositories have local changes/conflicts:[/bold red]''))
                   need_fetch)
                ''Fetch latest info for ALL modified/conflicted repositories? (never pulls, never overwrites)''
                True
            else (sb, Some False))"
  have unfolded: "do_updates_and_clones env s checked =
      (case A of
         (sa, None) \<Rightarrow> (sa, Some EOFError)
       | (sa, Some update_all) \<Rightarrow>
           (case B sa of
              (sb, None) \<Rightarrow> (sb, Some EOFError)
            | (sb, Some clone_all) \<Rightarrow>
                (case C sb of
                   (sc, None) \<Rightarrow> (sc, Some EOFError)
                 | (sc, Some fetch_all) \<Rightarrow>
                     (for_each (fetch_one env) fetch_all
                        (for_each (clone_one env) clone_all
                           (for_each (update_one env) update_all sc need_update)
                           need_clone)
                        need_fetch,
                      None))))"
    unfolding A_def B_def C_def do_updates_and_clones_def Let_def need_update_def need_clone_def
      need_fetch_def
    by (rule refl)
  obtain sa ra where a: "A = (sa, ra)" by (cases A)
  obtain sb rb where b: "B sa = (sb, rb)" by (cases "B sa")
  obtain sc rc where c: "C sb = (sc, rc)" by (cases "C sb")
  have ea: "extends_with P s sa"
    using prints prompts a [unfolded A_def] by (rule extends_prompt_block [where P = P])
  have eb: "extends_with P sa sb"
    using prints prompts b [unfolded B_def] by (rule extends_prompt_block [where P = P])
  have ec: "extends_with P sb sc"
    using prints prompts c [unfolded C_def] by (rule extends_prompt_block [where P = P])
  have eab: "extends_with P s sb"
    using ea eb by (rule extends_trans)
  have eabc: "extends_with P s sc"
    using eab ec by (rule extends_trans)
  show ?thesis
  proof (cases ra)
    case None
    with a unfolded ea show ?thesis by simp
  next
    case ua: (Some update_all)
    show ?thesis
    proof (cases rb)
      case None
      with a b ua unfolded eab show ?thesis by simp
    next
      case ca: (Some clone_all)
      show ?thesis
      proof (cases rc)
        case None
        with a b c ua ca unfolded eabc show ?thesis by simp
      next
        case fa: (Some fetch_all)
        have "extends_with P s
            (for_each (fetch_one env) fetch_all (for_each (clone_one env) clone_all
               (for_each (update_one env) update_all sc need_update) need_clone) need_fetch)"
          using eabc actions by (rule extends_trans)
        with a b c ua ca fa unfolded show ?thesis by simp
      qed
    qed
  qed
qed


lemma new_events_run:
  "run_command env s cmd cwd t = (s', r) \<Longrightarrow> new_events s s' = [Call cmd cwd t]"
  by (auto simp: run_command_def new_events_def split: prod.splits proc_outcome.splits)

lemma new_events_append:
  assumes "extends_with P s s1" and "extends_with Q s1 s2"
  shows "new_events s s2 = new_events s s1 @ new_events s1 s2"
  using assms by (auto simp: extends_with_def new_events_def)

lemma extends_any: "extends_with P s s' \<Longrightarrow> list_all Q (new_events s s') \<Longrightarrow> extends_with Q s s'"
  by (auto simp: extends_with_def new_events_def)

text \<open>
  C2. When every record at the working directory \<open>p\<close> is classified \<^verbatim>\<open>MODIFIED\<close>,
  \<^verbatim>\<open>CONFLICT\<close> or \<^verbatim>\<open>DESYNCHRONIZED\<close>, every command the orchestrator runs in \<open>p\<close> is
  \<^verbatim>\<open>git fetch\<close> or one of the two submodule commands, so it is never a pull, merge or
  reset. For each member of that phase the first command is the fetch, and when the fetch
  fails no other command follows for it.
\<close>

theorem fetch_only_for_changed_repositories:
  fixes env :: "'w env"
  assumes "\<forall>r \<in> set checked. path r = p \<longrightarrow>
             status r \<in> {''MODIFIED'', ''CONFLICT'', ''DESYNCHRONIZED''}"
  shows "(\<forall>argv t. Call argv (Some p) t \<in> set (new_events s (fst (do_updates_and_clones env s checked)))
            \<longrightarrow> argv \<in> {[''git'', ''fetch''], [''git'', ''submodule'', ''init''],
                          [''git'', ''submodule'', ''update'', ''--recursive'']}) \<and>
         (\<forall>t r. \<exists>header rest.
            new_events t (fetch_one env t r)
              = Print header # Call [''git'', ''fetch''] (Some (path r)) 40 # rest \<and>
            (fst (snd (run_command env (console_print t header) [''git'', ''fetch''] (Some (path r)) 40)) \<noteq> 0
               \<longrightarrow> (\<forall>e \<in> set rest. \<exists>m. e = Print m)))"
proof (intro conjI allI impI)
  fix argv t
  assume issued: "Call argv (Some p) t \<in> set (new_events s (fst (do_updates_and_clones env s checked)))"
  have other: "only_refreshes_in p (Call argv (Some (path r)) 40)"
    if "r \<in> set checked" "status r \<notin> {''MODIFIED'', ''CONFLICT'', ''DESYNCHRONIZED''}" for r argv
    using that assms by (auto simp: only_refreshes_in_def)
  have "extends_with (only_refreshes_in p) s (fst (do_updates_and_clones env s checked))"
  proof (rule extends_do_updates_and_clones)
    fix r assume "r \<in> set checked" "status r = ''OUT OF DATE'' \<or> status r = ''OBSOLETE''"
    then have "status r \<notin> {''MODIFIED'', ''CONFLICT'', ''DESYNCHRONIZED''}" "r \<in> set checked"
      by auto
    then show "only_refreshes_in p (Call [''git'', ''fetch''] (Some (path r)) 40) \<and>
        only_refreshes_in p (Call [''git'', ''status'', ''--porcelain''] (Some (path r)) 40) \<and>
        only_refreshes_in p (Call [''git'', ''ls-files'', ''--unmerged''] (Some (path r)) 40) \<and>
        only_refreshes_in p (Call [''git'', ''pull''] (Some (path r)) 40) \<and>
        only_refreshes_in p (Call [''git'', ''submodule'', ''init''] (Some (path r)) 40) \<and>
        only_refreshes_in p (Call [''git'', ''submodule'', ''update'', ''--recursive''] (Some (path r)) 40)"
      using other by blast
  qed (simp_all add: only_refreshes_in_def refresh_commands_def)
  then have "list_all (only_refreshes_in p) (new_events s (fst (do_updates_and_clones env s checked)))"
    by (rule extends_new_events)
  with issued have "only_refreshes_in p (Call argv (Some p) t)"
    by (simp add: list_all_iff)
  then show "argv \<in> {[''git'', ''fetch''], [''git'', ''submodule'', ''init''],
                     [''git'', ''submodule'', ''update'', ''--recursive'']}"
    by (simp add: only_refreshes_in_def refresh_commands_def)
next
  fix t :: "'w state" and r :: repo
  let ?header = "CHR 0x0A # ''[yellow]Fetching latest info for '' @ name r
                   @ '' ('' @ status r @ '')...[/yellow]''"
  let ?s0 = "console_print t ?header"
  obtain s1 c1 o1 e1 where r1:
    "run_command env ?s0 [''git'', ''fetch''] (Some (path r)) 40 = (s1, (c1, o1, e1))"
    by (metis prod.exhaust)
  have t1: "trace s1 = trace t @ [Print ?header, Call [''git'', ''fetch''] (Some (path r)) 40]"
    using r1 by (auto simp: run_command_def console_print_def split: prod.splits proc_outcome.splits)
  have "extends_with (\<lambda>e. True) s1 (fetch_one env t r)"
  proof (cases "c1 = 0")
    case True
    have "extends_with (\<lambda>e. True) s1 (ensure_submodules env s1 (path r))"
      by (rule extends_ensure_submodules) simp_all
    moreover have "extends_with (\<lambda>e. True) (ensure_submodules env s1 (path r))
        (console_print (ensure_submodules env s1 (path r)) (''[green]Fetched for '' @ name r @ ''[/green]''))"
      by (rule extends_print) simp
    ultimately have "extends_with (\<lambda>e. True) s1
        (console_print (ensure_submodules env s1 (path r)) (''[green]Fetched for '' @ name r @ ''[/green]''))"
      by (rule extends_trans)
    with True r1 show ?thesis
      by (simp add: fetch_one_def Let_def)
  next
    case False
    have "extends_with (\<lambda>e. True) s1
        (console_print s1 (''[red]git fetch failed for '' @ name r @ ''[/red]: '' @ e1))"
      by (rule extends_print) simp
    with False r1 show ?thesis
      by (simp add: fetch_one_def Let_def)
  qed
  then obtain es where es: "trace (fetch_one env t r) = trace s1 @ es"
    by (auto simp: extends_with_def)
  have failed: "\<forall>e \<in> set es. \<exists>m. e = Print m" if "c1 \<noteq> 0"
    using that r1 es by (auto simp: fetch_one_def Let_def console_print_def)
  show "\<exists>header rest.
      new_events t (fetch_one env t r) = Print header # Call [''git'', ''fetch''] (Some (path r)) 40 # rest \<and>
      (fst (snd (run_command env (console_print t header) [''git'', ''fetch''] (Some (path r)) 40)) \<noteq> 0
         \<longrightarrow> (\<forall>e \<in> set rest. \<exists>m. e = Print m))"
    using t1 es failed r1
    by (intro exI [of _ ?header] exI [of _ es]) (simp add: new_events_def)
qed


theorem fetch_only_for_changed_repositories_witness:
  "Call [''git'', ''fetch''] (Some demo) 40
     \<in> set (new_events (start dirty_diverged)
          (fst (do_updates_and_clones fake_env (start dirty_diverged) [demo_repo ''MODIFIED'']))) \<and>
   Call [''git'', ''pull''] (Some demo) 40
     \<notin> set (new_events (start dirty_diverged)
          (fst (do_updates_and_clones fake_env (start dirty_diverged) [demo_repo ''MODIFIED''])))"
proof (rule conjI)
  show "Call [''git'', ''fetch''] (Some demo) 40
     \<in> set (new_events (start dirty_diverged)
          (fst (do_updates_and_clones fake_env (start dirty_diverged) [demo_repo ''MODIFIED''])))"
    by (simp add: orchestrator_eval dirty_diverged_def)
next
  have changed: "\<forall>r \<in> set [demo_repo ''MODIFIED'']. path r = demo \<longrightarrow>
      status r \<in> {''MODIFIED'', ''CONFLICT'', ''DESYNCHRONIZED''}"
    by (simp add: demo_repo_def)
  note only = fetch_only_for_changed_repositories [OF changed, of "start dirty_diverged" fake_env,
      THEN conjunct1, rule_format, of "[''git'', ''pull'']" 40]
  have other: "[''git'', ''pull''] \<notin> {[''git'', ''fetch''], [''git'', ''submodule'', ''init''],
      [''git'', ''submodule'', ''update'', ''--recursive'']}"
    by simp
  show "Call [''git'', ''pull''] (Some demo) 40
     \<notin> set (new_events (start dirty_diverged)
          (fst (do_updates_and_clones fake_env (start dirty_diverged) [demo_repo ''MODIFIED''])))"
  proof
    assume "Call [''git'', ''pull''] (Some demo) 40
     \<in> set (new_events (start dirty_diverged)
          (fst (do_updates_and_clones fake_env (start dirty_diverged) [demo_repo ''MODIFIED''])))"
    then have "[''git'', ''pull''] \<in> {[''git'', ''fetch''], [''git'', ''submodule'', ''init''],
      [''git'', ''submodule'', ''update'', ''--recursive'']}"
      by (rule only)
    with other show False by (rule notE)
  qed
qed


section \<open>Action orchestrator: the catch-up phase\<close>

text \<open>What one member of the catch-up phase adds to the trace up to the two re-checks.\<close>

lemma update_one_prefix:
  fixes env :: "'w env"
  assumes fetch: "run_command env
        (console_print s (CHR 0x0A # ''[cyan]Updating repository '' @ name r @ ''...[/cyan]''))
        [''git'', ''fetch''] (Some (path r)) 40 = (s1, (c1, o1, e1))"
    and st: "run_command env s1 [''git'', ''status'', ''--porcelain''] (Some (path r)) 40
        = (s2, (c2, out2, e2))"
    and ls: "run_command env s2 [''git'', ''ls-files'', ''--unmerged''] (Some (path r)) 40
        = (s3, (c3, out3, e3))"
  shows "trace s3 = trace s @
      [Print (CHR 0x0A # ''[cyan]Updating repository '' @ name r @ ''...[/cyan]''),
       Call [''git'', ''fetch''] (Some (path r)) 40,
       Call [''git'', ''status'', ''--porcelain''] (Some (path r)) 40,
       Call [''git'', ''ls-files'', ''--unmerged''] (Some (path r)) 40]"
proof -
  have "trace s1 = trace s @
      [Print (CHR 0x0A # ''[cyan]Updating repository '' @ name r @ ''...[/cyan]''),
       Call [''git'', ''fetch''] (Some (path r)) 40]"
    using fetch by (auto simp: run_command_def console_print_def split: prod.splits proc_outcome.splits)
  moreover have "trace s2 = trace s1 @ [Call [''git'', ''status'', ''--porcelain''] (Some (path r)) 40]"
    using st by (auto simp: run_command_def split: prod.splits proc_outcome.splits)
  moreover have "trace s3 = trace s2 @ [Call [''git'', ''ls-files'', ''--unmerged''] (Some (path r)) 40]"
    using ls by (auto simp: run_command_def split: prod.splits proc_outcome.splits)
  ultimately show ?thesis by simp
qed

lemma ensure_submodules_no_pull:
  "extends_with (\<lambda>e. e \<noteq> Call [''git'', ''pull''] (Some p) 40) t (ensure_submodules env t p)"
  by (rule extends_ensure_submodules) simp_all

lemma ensure_submodules_trace:
  "\<exists>es. trace (ensure_submodules env t p) = trace t @ es \<and>
        Call [''git'', ''pull''] (Some p) 40 \<notin> set es"
  using ensure_submodules_no_pull [of p t env]
  by (auto simp: extends_with_def list_all_iff)

lemma update_one_clean:
  fixes env :: "'w env"
  assumes fetch: "run_command env
        (console_print s (CHR 0x0A # ''[cyan]Updating repository '' @ name r @ ''...[/cyan]''))
        [''git'', ''fetch''] (Some (path r)) 40 = (s1, (0, o1, e1))"
    and st: "run_command env s1 [''git'', ''status'', ''--porcelain''] (Some (path r)) 40
        = (s2, (c2, out2, e2))"
    and ls: "run_command env s2 [''git'', ''ls-files'', ''--unmerged''] (Some (path r)) 40
        = (s3, (c3, out3, e3))"
    and clean: "py_strip out2 = []" "py_strip out3 = []"
  shows "Call [''git'', ''pull''] (Some (path r)) 40 \<in> set (new_events s (update_one env s r))"
    and "\<exists>msg. update_one env s r = ensure_submodules env
           (console_print (fst (run_command env s3 [''git'', ''pull''] (Some (path r)) 40)) msg) (path r)"
proof -
  obtain s4 c4 o4 e4 where pull:
    "run_command env s3 [''git'', ''pull''] (Some (path r)) 40 = (s4, (c4, o4, e4))"
    by (metis prod.exhaust)
  define msg where "msg = (if c4 \<noteq> 0 then ''[red]git pull failed for '' @ name r @ ''[/red]: '' @ e4
      else ''[green]Pulled latest changes for '' @ name r @ ''[/green]'')"
  have result: "update_one env s r = ensure_submodules env (console_print s4 msg) (path r)"
    using fetch st ls pull clean by (simp add: update_one_def Let_def msg_def)
  with pull show "\<exists>msg. update_one env s r = ensure_submodules env
      (console_print (fst (run_command env s3 [''git'', ''pull''] (Some (path r)) 40)) msg) (path r)"
    by auto
  have t4: "trace s4 = trace s3 @ [Call [''git'', ''pull''] (Some (path r)) 40]"
    using pull by (auto simp: run_command_def split: prod.splits proc_outcome.splits)
  obtain es where "trace (update_one env s r) = trace (console_print s4 msg) @ es"
    using ensure_submodules_trace [of env "console_print s4 msg" "path r"] result by auto
  with t4 update_one_prefix [OF fetch st ls]
  show "Call [''git'', ''pull''] (Some (path r)) 40 \<in> set (new_events s (update_one env s r))"
    by (simp add: new_events_def console_print_def)
qed

lemma update_one_skipped:
  fixes env :: "'w env"
  assumes fetch: "run_command env
        (console_print s (CHR 0x0A # ''[cyan]Updating repository '' @ name r @ ''...[/cyan]''))
        [''git'', ''fetch''] (Some (path r)) 40 = (s1, (0, o1, e1))"
    and st: "run_command env s1 [''git'', ''status'', ''--porcelain''] (Some (path r)) 40
        = (s2, (c2, out2, e2))"
    and ls: "run_command env s2 [''git'', ''ls-files'', ''--unmerged''] (Some (path r)) 40
        = (s3, (c3, out3, e3))"
    and unclean: "py_strip out2 \<noteq> [] \<or> py_strip out3 \<noteq> []"
  shows "Call [''git'', ''pull''] (Some (path r)) 40 \<notin> set (new_events s (update_one env s r))"
    and "\<exists>warned msgs. update_one env s r = ensure_submodules env warned (path r) \<and>
           msgs \<noteq> [] \<and> warned = s3\<lparr>trace := trace s3 @ map Print msgs\<rparr>"
proof -
  define msgs where "msgs =
      (if py_strip out2 \<noteq> [] then [''[yellow]Skipped pull in '' @ name r @ '' due to local changes[/yellow]'']
       else []) @
      (if py_strip out3 \<noteq> [] then [''[red]Skipped pull in '' @ name r @ '' due to merge conflicts[/red]'']
       else [])"
  define warned where "warned = s3\<lparr>trace := trace s3 @ map Print msgs\<rparr>"
  have result: "update_one env s r = ensure_submodules env warned (path r)"
    using fetch st ls unclean
    by (auto simp: update_one_def Let_def msgs_def warned_def console_print_def)
  have some: "msgs \<noteq> []"
    using unclean by (auto simp: msgs_def)
  from result some show "\<exists>warned msgs. update_one env s r = ensure_submodules env warned (path r) \<and>
      msgs \<noteq> [] \<and> warned = s3\<lparr>trace := trace s3 @ map Print msgs\<rparr>"
    unfolding warned_def by blast
  obtain es where es: "trace (update_one env s r) = trace warned @ es"
      "Call [''git'', ''pull''] (Some (path r)) 40 \<notin> set es"
    using ensure_submodules_trace [of env warned "path r"] result by auto
  with update_one_prefix [OF fetch st ls]
  show "Call [''git'', ''pull''] (Some (path r)) 40 \<notin> set (new_events s (update_one env s r))"
    by (auto simp: new_events_def warned_def)
qed


lemma update_one_after_rechecks:
  fixes env :: "'w env"
  assumes fetch: "run_command env
        (console_print s (CHR 0x0A # ''[cyan]Updating repository '' @ name r @ ''...[/cyan]''))
        [''git'', ''fetch''] (Some (path r)) 40 = (s1, (0, o1, e1))"
    and st: "run_command env s1 [''git'', ''status'', ''--porcelain''] (Some (path r)) 40
        = (s2, (c2, out2, e2))"
    and ls: "run_command env s2 [''git'', ''ls-files'', ''--unmerged''] (Some (path r)) 40
        = (s3, (c3, out3, e3))"
  shows "Call [''git'', ''status'', ''--porcelain''] (Some (path r)) 40
           \<in> set (new_events s (update_one env s r))"
    and "Call [''git'', ''ls-files'', ''--unmerged''] (Some (path r)) 40
           \<in> set (new_events s (update_one env s r))"
proof -
  have "\<exists>es. trace (update_one env s r) = trace s3 @ es"
  proof (cases "py_strip out2 = [] \<and> py_strip out3 = []")
    case True
    obtain s4 c4 o4 e4 where pull:
      "run_command env s3 [''git'', ''pull''] (Some (path r)) 40 = (s4, (c4, o4, e4))"
      by (metis prod.exhaust)
    have t4: "trace s4 = trace s3 @ [Call [''git'', ''pull''] (Some (path r)) 40]"
      using pull by (auto simp: run_command_def split: prod.splits proc_outcome.splits)
    from update_one_clean(2) [OF fetch st ls] True pull obtain msg where
      "update_one env s r = ensure_submodules env (console_print s4 msg) (path r)"
      by auto
    with t4 ensure_submodules_trace [of env "console_print s4 msg" "path r"] show ?thesis
      by (auto simp: console_print_def)
  next
    case False
    with update_one_skipped(2) [OF fetch st ls] obtain warned msgs where
      "update_one env s r = ensure_submodules env warned (path r)"
      "warned = s3\<lparr>trace := trace s3 @ map Print msgs\<rparr>"
      by blast
    with ensure_submodules_trace [of env warned "path r"] show ?thesis
      by auto
  qed
  then obtain es where "trace (update_one env s r) = trace s3 @ es" ..
  with update_one_prefix [OF fetch st ls]
  show "Call [''git'', ''status'', ''--porcelain''] (Some (path r)) 40
           \<in> set (new_events s (update_one env s r))"
    and "Call [''git'', ''ls-files'', ''--unmerged''] (Some (path r)) 40
           \<in> set (new_events s (update_one env s r))"
    by (simp_all add: new_events_def)
qed

text \<open>
  C8. For a member of the catch-up phase whose fetch succeeded, the status and the
  unmerged listing are read again. When both read as clean, \<^verbatim>\<open>git pull\<close> is run and the
  submodule updater is called on the state the pull (and its report) left. When either
  reads as dirty or conflicted, no pull is run, at least one warning is printed after the
  re-checks, and the submodule updater is still called.
\<close>

theorem catch_up_recheck:
  fixes env :: "'w env"
  assumes fetch: "run_command env
        (console_print s (CHR 0x0A # ''[cyan]Updating repository '' @ name r @ ''...[/cyan]''))
        [''git'', ''fetch''] (Some (path r)) 40 = (s1, (0, o1, e1))"
    and st: "run_command env s1 [''git'', ''status'', ''--porcelain''] (Some (path r)) 40
        = (s2, (c2, out2, e2))"
    and ls: "run_command env s2 [''git'', ''ls-files'', ''--unmerged''] (Some (path r)) 40
        = (s3, (c3, out3, e3))"
  shows "Call [''git'', ''status'', ''--porcelain''] (Some (path r)) 40
           \<in> set (new_events s (update_one env s r)) \<and>
         Call [''git'', ''ls-files'', ''--unmerged''] (Some (path r)) 40
           \<in> set (new_events s (update_one env s r)) \<and>
         (py_strip out2 = [] \<and> py_strip out3 = [] \<longrightarrow>
            Call [''git'', ''pull''] (Some (path r)) 40 \<in> set (new_events s (update_one env s r)) \<and>
            (\<exists>msg. update_one env s r = ensure_submodules env
               (console_print (fst (run_command env s3 [''git'', ''pull''] (Some (path r)) 40)) msg)
               (path r))) \<and>
         (py_strip out2 \<noteq> [] \<or> py_strip out3 \<noteq> [] \<longrightarrow>
            Call [''git'', ''pull''] (Some (path r)) 40 \<notin> set (new_events s (update_one env s r)) \<and>
            (\<exists>warned msgs. update_one env s r = ensure_submodules env warned (path r) \<and>
               msgs \<noteq> [] \<and> warned = s3\<lparr>trace := trace s3 @ map Print msgs\<rparr>))"
  using update_one_clean [OF fetch st ls] update_one_skipped [OF fetch st ls]
    update_one_after_rechecks [OF fetch st ls]
  by blast

theorem catch_up_recheck_witness:
  "Call [''git'', ''pull''] (Some demo) 40
     \<in> set (new_events (start (behind_clean 0))
          (update_one fake_env (start (behind_clean 0)) (demo_repo ''OUT OF DATE''))) \<and>
   Call [''git'', ''pull''] (Some demo) 40
     \<notin> set (new_events (start dirty_diverged)
          (update_one fake_env (start dirty_diverged) (demo_repo ''OUT OF DATE'')))"
proof (rule conjI)
  let ?r = "demo_repo ''OUT OF DATE''"
  let ?s0 = "console_print (start (behind_clean 0))
      (CHR 0x0A # ''[cyan]Updating repository '' @ name ?r @ ''...[/cyan]'')"
  let ?s1 = "?s0\<lparr>trace := trace ?s0 @ [Call [''git'', ''fetch''] (Some (path ?r)) 40]\<rparr>"
  let ?s2 = "?s1\<lparr>trace := trace ?s1 @ [Call [''git'', ''status'', ''--porcelain''] (Some (path ?r)) 40]\<rparr>"
  let ?s3 = "?s2\<lparr>trace := trace ?s2 @ [Call [''git'', ''ls-files'', ''--unmerged''] (Some (path ?r)) 40]\<rparr>"
  have fetch: "run_command fake_env ?s0 [''git'', ''fetch''] (Some (path ?r)) 40 = (?s1, (0, [], []))"
    by (simp add: fake_run_command console_print_def start_def behind_clean_def repo_world_def py_strip_def)
  have st: "run_command fake_env ?s1 [''git'', ''status'', ''--porcelain''] (Some (path ?r)) 40
      = (?s2, (0, [], []))"
    by (simp add: fake_run_command console_print_def start_def behind_clean_def repo_world_def py_strip_def)
  have ls: "run_command fake_env ?s2 [''git'', ''ls-files'', ''--unmerged''] (Some (path ?r)) 40
      = (?s3, (0, [], []))"
    by (simp add: fake_run_command console_print_def start_def behind_clean_def repo_world_def py_strip_def)
  have clean: "py_strip [] = [] \<and> py_strip [] = []"
    by (simp add: py_strip_def)
  have same: "path ?r = demo"
    by (simp add: demo_repo_def)
  from catch_up_recheck [OF fetch st ls] clean
  have "Call [''git'', ''pull''] (Some (path ?r)) 40
     \<in> set (new_events (start (behind_clean 0)) (update_one fake_env (start (behind_clean 0)) ?r))"
    by blast
  with same show "Call [''git'', ''pull''] (Some demo) 40
     \<in> set (new_events (start (behind_clean 0)) (update_one fake_env (start (behind_clean 0)) ?r))"
    by simp
next
  let ?r = "demo_repo ''OUT OF DATE''"
  let ?s0 = "console_print (start dirty_diverged)
      (CHR 0x0A # ''[cyan]Updating repository '' @ name ?r @ ''...[/cyan]'')"
  let ?s1 = "?s0\<lparr>trace := trace ?s0 @ [Call [''git'', ''fetch''] (Some (path ?r)) 40]\<rparr>"
  let ?s2 = "?s1\<lparr>trace := trace ?s1 @ [Call [''git'', ''status'', ''--porcelain''] (Some (path ?r)) 40]\<rparr>"
  let ?s3 = "?s2\<lparr>trace := trace ?s2 @ [Call [''git'', ''ls-files'', ''--unmerged''] (Some (path ?r)) 40]\<rparr>"
  have fetch: "run_command fake_env ?s0 [''git'', ''fetch''] (Some (path ?r)) 40 = (?s1, (0, [], []))"
    by (simp add: fake_run_command console_print_def start_def dirty_diverged_def repo_world_def py_strip_def)
  have st: "run_command fake_env ?s1 [''git'', ''status'', ''--porcelain''] (Some (path ?r)) 40
      = (?s2, (0, ''M a.txt'', []))"
    by (simp add: fake_run_command console_print_def start_def dirty_diverged_def repo_world_def
        py_strip_def py_isspace_def)
  have ls: "run_command fake_env ?s2 [''git'', ''ls-files'', ''--unmerged''] (Some (path ?r)) 40
      = (?s3, (0, [], []))"
    by (simp add: fake_run_command console_print_def start_def dirty_diverged_def repo_world_def py_strip_def)
  have dirty: "py_strip ''M a.txt'' \<noteq> [] \<or> py_strip [] \<noteq> []"
    by (simp add: py_strip_def py_isspace_def)
  have same: "path ?r = demo"
    by (simp add: demo_repo_def)
  from catch_up_recheck [OF fetch st ls] dirty
  have "Call [''git'', ''pull''] (Some (path ?r)) 40
     \<notin> set (new_events (start dirty_diverged) (update_one fake_env (start dirty_diverged) ?r))"
    by blast
  with same show "Call [''git'', ''pull''] (Some demo) 40
     \<notin> set (new_events (start dirty_diverged) (update_one fake_env (start dirty_diverged) ?r))"
    by simp
qed


text \<open>
  C10. In the catch-up phase the two re-checks look only at what the commands printed.
  After a successful fetch, when each re-check either could not be run or completed, with
  any exit code, printing nothing, the member is taken as clean and unconflicted and
  \<^verbatim>\<open>git pull\<close> is run.
\<close>

theorem unreadable_recheck_still_pulls:
  fixes env :: "'w env"
  assumes fetch: "run_command env
        (console_print s (CHR 0x0A # ''[cyan]Updating repository '' @ name r @ ''...[/cyan]''))
        [''git'', ''fetch''] (Some (path r)) 40 = (s1, (0, o1, e1))"
    and st: "subprocess_run env (world s1) [''git'', ''status'', ''--porcelain''] (Some (path r)) 40
        = (w2, outcome2)"
    and ls: "subprocess_run env w2 [''git'', ''ls-files'', ''--unmerged''] (Some (path r)) 40
        = (w3, outcome3)"
    and empty: "reads_empty outcome2" "reads_empty outcome3"
  shows "Call [''git'', ''pull''] (Some (path r)) 40 \<in> set (new_events s (update_one env s r))"
proof -
  obtain s2 c2 out2 e2 where st': "run_command env s1 [''git'', ''status'', ''--porcelain'']
      (Some (path r)) 40 = (s2, (c2, out2, e2))"
    by (metis prod.exhaust)
  with st empty(1) have w2: "world s2 = w2" and clean2: "py_strip out2 = []"
    by (auto simp: run_command_def reads_empty_def py_strip_def split: proc_outcome.splits)
  obtain s3 c3 out3 e3 where ls': "run_command env s2 [''git'', ''ls-files'', ''--unmerged'']
      (Some (path r)) 40 = (s3, (c3, out3, e3))"
    by (metis prod.exhaust)
  with ls w2 empty(2) have clean3: "py_strip out3 = []"
    by (auto simp: run_command_def reads_empty_def py_strip_def split: proc_outcome.splits)
  from fetch st' ls' clean2 clean3 show ?thesis
    by (rule update_one_clean(1))
qed

theorem unreadable_recheck_still_pulls_witness:
  "reads_empty timed_out \<and>
   Call [''git'', ''pull''] (Some demo) 40
     \<in> set (new_events (start unmerged_query_fails)
          (update_one fake_env (start unmerged_query_fails) (demo_repo ''OUT OF DATE'')))"
proof (rule conjI)
  show unreadable: "reads_empty timed_out"
    by (simp add: reads_empty_def timed_out_def)
  let ?r = "demo_repo ''OUT OF DATE''"
  let ?w = unmerged_query_fails
  let ?s0 = "console_print (start ?w)
      (CHR 0x0A # ''[cyan]Updating repository '' @ name ?r @ ''...[/cyan]'')"
  let ?s1 = "?s0\<lparr>trace := trace ?s0 @ [Call [''git'', ''fetch''] (Some (path ?r)) 40]\<rparr>"
  have fetch: "run_command fake_env ?s0 [''git'', ''fetch''] (Some (path ?r)) 40 = (?s1, (0, [], []))"
    by (simp add: fake_run_command console_print_def start_def unmerged_query_fails_def
        repo_world_def py_strip_def)
  have st: "subprocess_run fake_env (world ?s1) [''git'', ''status'', ''--porcelain''] (Some (path ?r)) 40
      = (?w, Completed 0 [] [])"
    by (simp add: fake_env_def fake_run_def console_print_def start_def unmerged_query_fails_def
        repo_world_def)
  have ls: "subprocess_run fake_env ?w [''git'', ''ls-files'', ''--unmerged''] (Some (path ?r)) 40
      = (?w, timed_out)"
    by (simp add: fake_env_def fake_run_def unmerged_query_fails_def repo_world_def)
  have readable: "reads_empty (Completed 0 [] [])"
    by (simp add: reads_empty_def py_strip_def)
  have same: "path ?r = demo"
    by (simp add: demo_repo_def)
  have "Call [''git'', ''pull''] (Some (path ?r)) 40
     \<in> set (new_events (start ?w) (update_one fake_env (start ?w) ?r))"
    by (rule unreadable_recheck_still_pulls [OF fetch st ls readable unreadable])
  with same show "Call [''git'', ''pull''] (Some demo) 40
     \<in> set (new_events (start ?w) (update_one fake_env (start ?w) ?r))"
    by simp
qed


section \<open>Action orchestrator: which commands are run\<close>

text \<open>
  Whatever the records, the answers and the outcomes of the commands are, the
  orchestrator runs only \<^verbatim>\<open>git fetch\<close>, \<^verbatim>\<open>git status --porcelain\<close>,
  \<^verbatim>\<open>git ls-files --unmerged\<close>, \<^verbatim>\<open>git pull\<close>, the two submodule commands and
  \<^verbatim>\<open>git clone\<close> with a URL and a destination: no merge, rebase, reset or push command.
\<close>

lemma orchestrator_runs_listed_commands_only:
  "list_all orchestrator_event (new_events s (fst (do_updates_and_clones env s checked)))"
proof -
  have "extends_with orchestrator_event s (fst (do_updates_and_clones env s checked))"
    by (rule extends_do_updates_and_clones)
      (simp_all add: orchestrator_event_def orchestrator_commands_def)
  then show ?thesis
    by (rule extends_new_events)
qed

text \<open>
  C1, at a clone the code mishandles. The tree is clean and the count query prints
  \<^verbatim>\<open>3\<close> and \<^verbatim>\<open>2\<close>, so both \<^verbatim>\<open>behind\<close> and \<^verbatim>\<open>ahead\<close> are positive: the local
  branch has diverged from its upstream. The classifier tests \<^verbatim>\<open>behind > 0\<close> before
  \<^verbatim>\<open>ahead > 0\<close> and answers \<^verbatim>\<open>OUT OF DATE\<close>, and on the operator's confirmation the
  catch-up phase runs the plain \<^verbatim>\<open>git pull\<close> there, whose argv has no fast-forward-only
  option.
\<close>

theorem plain_pull_on_diverged_clone:
  "parse_ahead_behind (''3'' @ [CHR 0x09] @ ''2'') = (3, 2) \<and>
   (case check_repos fake_env (start diverged_clean) ''alice'' ''gh'' (Some ''acme'') [''demo''] ''/src'' of
      (s1, checked) \<Rightarrow>
        map status checked = [''OUT OF DATE''] \<and> map path checked = [demo] \<and>
        Call [''git'', ''pull''] (Some demo) 40
          \<in> set (new_events s1 (fst (do_updates_and_clones fake_env s1 checked))) \<and>
        ''--ff-only'' \<notin> set (concat (map (\<lambda>e. case e of Call argv cwd t \<Rightarrow> argv | _ \<Rightarrow> [])
                (new_events s1 (fst (do_updates_and_clones fake_env s1 checked))))))"
  by code_simp

end
